theory Spec2Isabelle
  imports Complex_Main "HOL-Library.AList"
begin

section \<open>Python values\<close>

text \<open>
  The validator of \<^verbatim>\<open>scripts/validate.py\<close> inspects documents parsed by
  \<^verbatim>\<open>json.load\<close>. A parsed document is a value of the following type. A dict is kept
  as the list of its items in insertion order (the keys of a parsed dict are distinct; a
  lookup in the model takes the first item with the key). A float is represented by the
  real number it denotes (Python compares an int with a float by their exact values); the
  non-standard literals NaN and Infinity are outside the model. A string is the list of
  the bytes of its UTF-8 encoding, so a character beyond ASCII takes several elements.
\<close>

datatype json =
    JNull
  | JBool bool
  | JInt int
  | JFloat real
  | JString string
  | JList "json list"
  | JObject "(string \<times> json) list"

text \<open>\<^verbatim>\<open>type(v).__name__\<close>\<close>

fun type_name :: "json \<Rightarrow> string" where
  "type_name JNull = ''NoneType''"
| "type_name (JBool b) = ''bool''"
| "type_name (JInt i) = ''int''"
| "type_name (JFloat x) = ''float''"
| "type_name (JString s) = ''str''"
| "type_name (JList xs) = ''list''"
| "type_name (JObject kvs) = ''dict''"

text \<open>
  Exceptions are values. Each carries the text \<^verbatim>\<open>str(e)\<close>; a
  \<^verbatim>\<open>json.JSONDecodeError\<close> also carries \<^verbatim>\<open>e.msg\<close> and \<^verbatim>\<open>e.lineno\<close>.
  \<open>OtherException\<close> stands for every other subclass of \<^verbatim>\<open>Exception\<close> that the
  operating system or a library call may raise.
\<close>

datatype py_exn =
    JSONDecodeError string int string
  | TypeError string
  | KeyError string
  | AttributeError string
  | TimeoutExpired string
  | FileNotFoundError string
  | MarkupError string
  | OtherException string

fun exn_str :: "py_exn \<Rightarrow> string" where
  "exn_str (JSONDecodeError msg lineno txt) = txt"
| "exn_str (TypeError txt) = txt"
| "exn_str (KeyError txt) = txt"
| "exn_str (AttributeError txt) = txt"
| "exn_str (TimeoutExpired txt) = txt"
| "exn_str (FileNotFoundError txt) = txt"
| "exn_str (MarkupError txt) = txt"
| "exn_str (OtherException txt) = txt"

text \<open>Sequencing of computations that may raise: the first exception ends the run.\<close>

definition then_exn :: "'x + 'a \<Rightarrow> ('a \<Rightarrow> 'x + 'b) \<Rightarrow> 'x + 'b" where
  "then_exn m f = (case m of Inr v \<Rightarrow> f v | Inl e \<Rightarrow> Inl e)"

text \<open>
  The body of a \<^verbatim>\<open>try\<close> block that updates a state in place, as a list of steps: a
  step that raises leaves the state as the steps before it made it, and the exception
  goes to the handler together with that state.
\<close>

fun run_steps :: "('s \<Rightarrow> 'e + 's) list \<Rightarrow> 's \<Rightarrow> 'e option \<times> 's" where
  "run_steps [] s = (None, s)"
| "run_steps (f # fs) s = (case f s of Inl e \<Rightarrow> (Some e, s) | Inr s' \<Rightarrow> run_steps fs s')"

subsection \<open>String methods\<close>

definition nl :: string where
  "nl = [CHR 0x0A]"

text \<open>\<^verbatim>\<open>s.startswith(p)\<close>\<close>

definition startswith :: "string \<Rightarrow> string \<Rightarrow> bool" where
  "startswith s p = (take (length p) s = p)"

text \<open>\<^verbatim>\<open>s.lstrip(chars)\<close>: drops every leading character that occurs in \<open>chars\<close>.\<close>

definition lstrip :: "string \<Rightarrow> string \<Rightarrow> string" where
  "lstrip s chars = dropWhile (\<lambda>c. c \<in> set chars) s"

text \<open>\<^verbatim>\<open>sub in s\<close> on strings\<close>

fun str_contains :: "string \<Rightarrow> string \<Rightarrow> bool" where
  "str_contains sub [] = (sub = [])"
| "str_contains sub (c # cs) = (startswith (c # cs) sub \<or> str_contains sub cs)"

text \<open>\<^verbatim>\<open>sep.join(xs)\<close>\<close>

fun join_str :: "string \<Rightarrow> string list \<Rightarrow> string" where
  "join_str sep [] = []"
| "join_str sep [x] = x"
| "join_str sep (x # y # ys) = x @ sep @ join_str sep (y # ys)"

text \<open>The decimal text of a natural number, as an f-string prints an index.\<close>

definition digit_char :: "nat \<Rightarrow> char" where
  "digit_char d = char_of (48 + d)"

function str_nat :: "nat \<Rightarrow> string" where
  "str_nat n = (if n < 10 then [digit_char n] else str_nat (n div 10) @ [digit_char (n mod 10)])"
  by pat_completeness auto
termination
  by (relation "measure (\<lambda>n. n)") auto

text \<open>The decimal text of an integer.\<close>

definition str_int :: "int \<Rightarrow> string" where
  "str_int i = (if i < 0 then ''-'' @ str_nat (nat (- i)) else str_nat (nat i))"

subsection \<open>Equality, membership and subscription\<close>

text \<open>
  \<^verbatim>\<open>a == b\<close> on parsed documents: \<^verbatim>\<open>True == 1 == 1.0\<close>, lists compare
  elementwise, dicts compare as sets of items whatever their order.
\<close>

fun num_val :: "json \<Rightarrow> real option" where
  "num_val (JBool b) = Some (if b then 1 else 0)"
| "num_val (JInt i) = Some (of_int i)"
| "num_val (JFloat x) = Some x"
| "num_val v = None"

fun py_eq :: "json \<Rightarrow> json \<Rightarrow> bool"
  and py_eq_list :: "json list \<Rightarrow> json list \<Rightarrow> bool"
  and py_eq_items :: "(string \<times> json) list \<Rightarrow> (string \<times> json) list \<Rightarrow> bool"
  and py_eq_lookup :: "json \<Rightarrow> string \<Rightarrow> (string \<times> json) list \<Rightarrow> bool" where
  "py_eq JNull b = (b = JNull)"
| "py_eq (JString s) b = (b = JString s)"
| "py_eq (JList xs) b = (case b of JList ys \<Rightarrow> py_eq_list xs ys | _ \<Rightarrow> False)"
| "py_eq (JObject xs) b =
     (case b of JObject ys \<Rightarrow> length xs = length ys \<and> py_eq_items xs ys | _ \<Rightarrow> False)"
| "py_eq a b = (case num_val b of Some y \<Rightarrow> num_val a = Some y | None \<Rightarrow> False)"
| "py_eq_list [] ys = (ys = [])"
| "py_eq_list (x # xs) ys =
     (case ys of [] \<Rightarrow> False | y # ys' \<Rightarrow> py_eq x y \<and> py_eq_list xs ys')"
| "py_eq_items [] ys = True"
| "py_eq_items ((k, v) # xs) ys = (py_eq_lookup v k ys \<and> py_eq_items xs ys)"
| "py_eq_lookup v k [] = False"
| "py_eq_lookup v k ((k', w) # ys) = (if k = k' then py_eq v w else py_eq_lookup v k ys)"

text \<open>\<^verbatim>\<open>a != b\<close>\<close>

definition py_ne :: "json \<Rightarrow> json \<Rightarrow> bool" where
  "py_ne a b = (\<not> py_eq a b)"

text \<open>\<^verbatim>\<open>key in data\<close> for a string key; a value that is no container raises.\<close>

fun py_contains :: "string \<Rightarrow> json \<Rightarrow> py_exn + bool" where
  "py_contains k (JObject kvs) = Inr (k \<in> set (map fst kvs))"
| "py_contains k (JList xs) = Inr (JString k \<in> set xs)"
| "py_contains k (JString s) = Inr (str_contains k s)"
| "py_contains k v =
     Inl (TypeError (''argument of type '' @ [CHR 0x27] @ type_name v @ [CHR 0x27] @ '' is not iterable''))"

text \<open>\<^verbatim>\<open>data[key]\<close> for a string key; only a dict can be subscripted by a string.\<close>

fun py_getitem :: "json \<Rightarrow> string \<Rightarrow> py_exn + json" where
  "py_getitem (JObject kvs) k = (case map_of kvs k of Some v \<Rightarrow> Inr v | None \<Rightarrow> Inl (KeyError k))"
| "py_getitem (JList xs) k = Inl (TypeError ''list indices must be integers or slices, not str'')"
| "py_getitem (JString s) k = Inl (TypeError ''string indices must be integers'')"
| "py_getitem v k =
     Inl (TypeError ([CHR 0x27] @ type_name v @ [CHR 0x27] @ '' object is not subscriptable''))"

text \<open>\<^verbatim>\<open>d.get(key)\<close> on a dict: \<^verbatim>\<open>None\<close> when the key is absent.\<close>

definition dict_get :: "(string \<times> json) list \<Rightarrow> string \<Rightarrow> json" where
  "dict_get kvs k = (case map_of kvs k of Some v \<Rightarrow> v | None \<Rightarrow> JNull)"

text \<open>\<^verbatim>\<open>data.get(key)\<close> on any parsed value: only a dict has the method.\<close>

fun py_get :: "json \<Rightarrow> string \<Rightarrow> py_exn + json" where
  "py_get (JObject kvs) k = Inr (dict_get kvs k)"
| "py_get v k =
     Inl (AttributeError ([CHR 0x27] @ type_name v @ [CHR 0x27] @ '' object has no attribute ''
            @ [CHR 0x27] @ ''get'' @ [CHR 0x27]))"

text \<open>
  A \<^verbatim>\<open>set\<close> of parsed values, kept as the list of its members. Lists and dicts are
  unhashable: looking one up in a set, or adding it, raises.
\<close>

fun hashable :: "json \<Rightarrow> bool" where
  "hashable (JList xs) = False"
| "hashable (JObject kvs) = False"
| "hashable v = True"

definition set_contains :: "json \<Rightarrow> json list \<Rightarrow> py_exn + bool" where
  "set_contains v members =
     (if hashable v then Inr (list_ex (py_eq v) members)
      else Inl (TypeError (''unhashable type: '' @ [CHR 0x27] @ type_name v @ [CHR 0x27])))"

definition set_add :: "json \<Rightarrow> json list \<Rightarrow> json list" where
  "set_add v members = (if list_ex (py_eq v) members then members else members @ [v])"

subsection \<open>Paths\<close>

text \<open>
  A \<^verbatim>\<open>pathlib.Path\<close> on a POSIX system: whether it is absolute, and its components.
  Parsing a string drops empty components and single dots; joining an absolute string
  replaces the path.
\<close>

datatype path = Path bool "string list"

text \<open>\<^verbatim>\<open>s.split(sep)\<close> for a separator of one character\<close>

fun split_on :: "char \<Rightarrow> string \<Rightarrow> string list" where
  "split_on sep [] = [[]]"
| "split_on sep (c # cs) =
     (if c = sep then [] # split_on sep cs
      else (case split_on sep cs of [] \<Rightarrow> [[c]] | p # ps \<Rightarrow> (c # p) # ps))"

definition path_parts :: "string \<Rightarrow> string list" where
  "path_parts s = filter (\<lambda>p. p \<noteq> [] \<and> p \<noteq> ''.'') (split_on (CHR ''/'') s)"

text \<open>\<^verbatim>\<open>p / s\<close>\<close>

fun truediv :: "path \<Rightarrow> string \<Rightarrow> path" where
  "truediv (Path a ps) s =
     (if startswith s ''/'' then Path True (path_parts s) else Path a (ps @ path_parts s))"

text \<open>\<^verbatim>\<open>str(p)\<close>, \<^verbatim>\<open>p.name\<close>, \<^verbatim>\<open>p.parent\<close>\<close>

fun str_path :: "path \<Rightarrow> string" where
  "str_path (Path a ps) =
     (if ps = [] then (if a then ''/'' else ''.'')
      else (if a then ''/'' else []) @ join_str ''/'' ps)"

fun path_name :: "path \<Rightarrow> string" where
  "path_name (Path a ps) = (if ps = [] then [] else last ps)"

fun path_parent :: "path \<Rightarrow> path" where
  "path_parent (Path a ps) = Path a (butlast ps)"

subsection \<open>The world outside the program\<close>

text \<open>
  What the file system, the JSON parser, the inspector subprocess and the libraries
  answer. A run only reads, so one record describes the whole run. \<open>json_load\<close> is
  \<^verbatim>\<open>open\<close> followed by \<^verbatim>\<open>json.load\<close>; \<open>subprocess_run\<close> is
  \<^verbatim>\<open>subprocess.run(cmd, capture_output=True, text=True, timeout=30)\<close>;
  \<open>py_repr\<close> is the text Python prints for a value that is not a string;
  \<open>console_print\<close> is \<^verbatim>\<open>console.print\<close> of the library \<^verbatim>\<open>rich\<close>, which reads
  square brackets in its argument as markup and raises \<^verbatim>\<open>MarkupError\<close> when a
  closing tag closes nothing; \<open>decimal_digits\<close> is the table of the decimal digits of
  Unicode other than \<^verbatim>\<open>0\<close> to \<^verbatim>\<open>9\<close>, each in UTF-8, which \<^verbatim>\<open>\d\<close> matches
  as well.
\<close>

record completed_process =
  returncode :: int
  stdout :: string
  stderr :: string

record world =
  path_exists :: "path \<Rightarrow> bool"
  path_is_dir :: "path \<Rightarrow> bool"
  path_iterdir :: "path \<Rightarrow> py_exn + path list"
  json_load :: "path \<Rightarrow> py_exn + json"
  subprocess_run :: "string list \<Rightarrow> py_exn + completed_process"
  path_cwd :: path
  py_repr :: "json \<Rightarrow> string"
  console_print :: "string \<Rightarrow> py_exn + unit"
  decimal_digits :: "string list"

text \<open>\<^verbatim>\<open>str(v)\<close>, as an f-string formats a value: a string is printed as it is.\<close>

definition py_str :: "world \<Rightarrow> json \<Rightarrow> string" where
  "py_str w v = (case v of JString s \<Rightarrow> s | _ \<Rightarrow> py_repr w v)"

subsection \<open>Regular expressions\<close>

text \<open>
  The two patterns of the program use character classes, concatenation, repetition and
  optional groups. \<open>Cls\<close> is a character class given by its ranges. A pattern is matched
  by taking its residual after each character of the input in turn.
\<close>

datatype re =
    Never
  | Empty
  | Cls "(char \<times> char) list"
  | Cat re re
  | Or re re
  | Star re

abbreviation Lit :: "char \<Rightarrow> re" where
  "Lit c \<equiv> Cls [(c, c)]"

abbreviation Many1 :: "re \<Rightarrow> re" where
  "Many1 r \<equiv> Cat r (Star r)"

abbreviation Optional :: "re \<Rightarrow> re" where
  "Optional r \<equiv> Or r Empty"

definition in_cls :: "char \<Rightarrow> (char \<times> char) list \<Rightarrow> bool" where
  "in_cls c ranges =
     list_ex (\<lambda>(lo, hi). (of_char lo :: nat) \<le> of_char c \<and> (of_char c :: nat) \<le> of_char hi) ranges"

fun accepts_empty :: "re \<Rightarrow> bool" where
  "accepts_empty Never = False"
| "accepts_empty Empty = True"
| "accepts_empty (Cls ranges) = False"
| "accepts_empty (Cat r s) = (accepts_empty r \<and> accepts_empty s)"
| "accepts_empty (Or r s) = (accepts_empty r \<or> accepts_empty s)"
| "accepts_empty (Star r) = True"

fun after_char :: "re \<Rightarrow> char \<Rightarrow> re" where
  "after_char Never c = Never"
| "after_char Empty c = Never"
| "after_char (Cls ranges) c = (if in_cls c ranges then Empty else Never)"
| "after_char (Cat r s) c =
     (if accepts_empty r then Or (Cat (after_char r c) s) (after_char s c)
      else Cat (after_char r c) s)"
| "after_char (Or r s) c = Or (after_char r c) (after_char s c)"
| "after_char (Star r) c = Cat (after_char r c) (Star r)"

definition re_fullmatch :: "re \<Rightarrow> string \<Rightarrow> bool" where
  "re_fullmatch r s = accepts_empty (foldl after_char r s)"

text \<open>
  \<^verbatim>\<open>re.compile('^...$').match(s)\<close> is not \<^verbatim>\<open>None\<close>: the body matches from the
  start of \<open>s\<close>, and \<^verbatim>\<open>$\<close> holds at the end of the string and also just before a
  newline that is the last character of the string.
\<close>

definition re_match :: "re \<Rightarrow> string \<Rightarrow> bool" where
  "re_match r s =
     (re_fullmatch r s \<or> (s \<noteq> [] \<and> last s = CHR 0x0A \<and> re_fullmatch r (butlast s)))"

text \<open>\<^verbatim>\<open>^[a-z][a-z0-9]*(-[a-z0-9]+)*$\<close>\<close>

definition PLUGIN_NAME_PATTERN :: re where
  "PLUGIN_NAME_PATTERN =
     Cat (Cls [(CHR ''a'', CHR ''z'')])
       (Cat (Star (Cls [(CHR ''a'', CHR ''z''), (CHR ''0'', CHR ''9'')]))
         (Star (Cat (Lit (CHR ''-''))
           (Many1 (Cls [(CHR ''a'', CHR ''z''), (CHR ''0'', CHR ''9'')])))))"

text \<open>
  \<^verbatim>\<open>\d\<close> on a string pattern: an ASCII digit, or one of the other decimal digits
  of Unicode, whose table is given.
\<close>

fun literal :: "string \<Rightarrow> re" where
  "literal [] = Empty"
| "literal (c # cs) = Cat (Lit c) (literal cs)"

fun one_of :: "string list \<Rightarrow> re" where
  "one_of [] = Never"
| "one_of (x # xs) = Or (literal x) (one_of xs)"

definition digit_class :: "string list \<Rightarrow> re" where
  "digit_class table = Or (Cls [(CHR ''0'', CHR ''9'')]) (one_of table)"

text \<open>\<^verbatim>\<open>^\d+\.\d+\.\d+(-[a-zA-Z0-9.]+)?(\+[a-zA-Z0-9.]+)?$\<close>\<close>

definition SEMVER_PATTERN :: "string list \<Rightarrow> re" where
  "SEMVER_PATTERN table =
     (let digits = Many1 (digit_class table);
          dot = Lit (CHR ''.'');
          ident = Many1 (Cls [(CHR ''a'', CHR ''z''), (CHR ''A'', CHR ''Z''),
                              (CHR ''0'', CHR ''9''), (CHR ''.'', CHR ''.'')])
      in Cat digits (Cat dot (Cat digits (Cat dot (Cat digits
           (Cat (Optional (Cat (Lit (CHR ''-'')) ident))
                (Optional (Cat (Lit (CHR ''+'')) ident))))))))"

text \<open>The set \<^verbatim>\<open>SPDX_LICENSES\<close>, listed in the order \<^verbatim>\<open>sorted\<close> gives it.\<close>

definition SPDX_LICENSES :: "string list" where
  "SPDX_LICENSES =
     [''Apache-2.0'', ''BSD-2-Clause'', ''BSD-3-Clause'', ''GPL-3.0'',
      ''ISC'', ''LGPL-3.0'', ''MIT'', ''MPL-2.0'']"

section \<open>Issues and results\<close>

record ValidationIssue =
  severity :: string
  check :: string
  message :: string
  file' :: string
  line :: "int option"

record ValidationResult =
  status :: string
  errors :: "ValidationIssue list"
  warnings :: "ValidationIssue list"
  info :: "ValidationIssue list"

text \<open>\<^verbatim>\<open>ValidationResult(status='passed')\<close>\<close>

definition new_result :: ValidationResult where
  "new_result = \<lparr>status = ''passed'', errors = [], warnings = [], info = []\<rparr>"

definition add_error ::
  "string \<Rightarrow> string \<Rightarrow> string \<Rightarrow> int option \<Rightarrow> ValidationResult \<Rightarrow> ValidationResult" where
  "add_error chk msg fl lineno result =
     (let r = result\<lparr>errors := errors result @
                [\<lparr>severity = ''error'', check = chk, message = msg, file' = fl, line = lineno\<rparr>]\<rparr>
      in if status r \<noteq> ''failed'' then r\<lparr>status := ''failed''\<rparr> else r)"

definition add_warning ::
  "string \<Rightarrow> string \<Rightarrow> string \<Rightarrow> int option \<Rightarrow> ValidationResult \<Rightarrow> ValidationResult" where
  "add_warning chk msg fl lineno result =
     (let r = result\<lparr>warnings := warnings result @
                [\<lparr>severity = ''warning'', check = chk, message = msg, file' = fl, line = lineno\<rparr>]\<rparr>
      in if status r = ''passed'' then r\<lparr>status := ''warning''\<rparr> else r)"

definition add_info :: "string \<Rightarrow> string \<Rightarrow> string \<Rightarrow> ValidationResult \<Rightarrow> ValidationResult" where
  "add_info chk msg fl result =
     result\<lparr>info := info result @
       [\<lparr>severity = ''info'', check = chk, message = msg, file' = fl, line = None\<rparr>]\<rparr>"

section \<open>PluginJsonValidator\<close>

text \<open>
  The methods take the validator's \<^verbatim>\<open>plugin_path\<close> in place of \<^verbatim>\<open>self\<close>; the
  result, which the program updates in place, is passed in and returned.
\<close>

definition plugin_json_path :: "path \<Rightarrow> path" where
  "plugin_json_path plugin_path = truediv (truediv plugin_path ''.claude-plugin'') ''plugin.json''"

definition validate_name :: "path \<Rightarrow> json \<Rightarrow> ValidationResult \<Rightarrow> ValidationResult" where
  \<open>validate_name plugin_path name result =
     (case name of
        JString s \<Rightarrow>
          if \<not> re_match PLUGIN_NAME_PATTERN s
          then add_error ''name_format''
                 (''Plugin name "'' @ s @ ''" must be kebab-case, lowercase, no spaces'')
                 (str_path (plugin_json_path plugin_path)) None result
          else result
      | _ \<Rightarrow>
          add_error ''name_type'' (''Plugin name must be string, got '' @ type_name name)
            (str_path (plugin_json_path plugin_path)) None result)\<close>

definition validate_version ::
  "world \<Rightarrow> path \<Rightarrow> json \<Rightarrow> ValidationResult \<Rightarrow> ValidationResult" where
  \<open>validate_version w plugin_path version result =
     (case version of
        JString s \<Rightarrow>
          if \<not> re_match (SEMVER_PATTERN (decimal_digits w)) s
          then add_error ''version_format''
                 (''Version "'' @ s @ ''" must follow semantic versioning (MAJOR.MINOR.PATCH)'')
                 (str_path (plugin_json_path plugin_path)) None result
          else result
      | _ \<Rightarrow>
          add_error ''version_type'' (''Version must be string, got '' @ type_name version)
            (str_path (plugin_json_path plugin_path)) None result)\<close>

definition validate_author :: "path \<Rightarrow> json \<Rightarrow> ValidationResult \<Rightarrow> ValidationResult" where
  \<open>validate_author plugin_path author result =
     (case author of
        JString s \<Rightarrow>
          add_info ''author_fix'' (''Change to: {"name": "'' @ s @ ''"}'')
            (str_path (plugin_json_path plugin_path))
            (add_error ''author_format''
               (''Author must be object with "name" field, not string. Found: "'' @ s @ ''"'')
               (str_path (plugin_json_path plugin_path)) None result)
      | JObject kvs \<Rightarrow>
          if ''name'' \<notin> set (map fst kvs)
          then add_error ''author_name'' ''Author object must have "name" field''
                 (str_path (plugin_json_path plugin_path)) None result
          else result
      | _ \<Rightarrow>
          add_error ''author_type'' (''Author must be object, got '' @ type_name author)
            (str_path (plugin_json_path plugin_path)) None result)\<close>

definition validate_license :: "path \<Rightarrow> json \<Rightarrow> ValidationResult \<Rightarrow> ValidationResult" where
  \<open>validate_license plugin_path license result =
     (case license of
        JString s \<Rightarrow>
          if s \<notin> set SPDX_LICENSES
          then add_warning ''license_spdx''
                 (''License "'' @ s @ ''" not in common SPDX list. Consider: ''
                    @ join_str '', '' SPDX_LICENSES)
                 (str_path (plugin_json_path plugin_path)) None result
          else result
      | _ \<Rightarrow>
          add_error ''license_type'' (''License must be string, got '' @ type_name license)
            (str_path (plugin_json_path plugin_path)) None result)\<close>

definition validate_repository :: "path \<Rightarrow> json \<Rightarrow> ValidationResult \<Rightarrow> ValidationResult" where
  "validate_repository plugin_path repository result =
     (case repository of
        JString s \<Rightarrow>
          if \<not> (startswith s ''http://'' \<or> startswith s ''https://'')
          then add_warning ''repository_url'' ''Repository should be a valid URL''
                 (str_path (plugin_json_path plugin_path)) None result
          else result
      | _ \<Rightarrow>
          add_error ''repository_type''
            (''Repository must be string, got '' @ type_name repository)
            (str_path (plugin_json_path plugin_path)) None result)"

text \<open>The loop of \<^verbatim>\<open>_validate_keywords\<close> over \<^verbatim>\<open>enumerate(keywords)\<close>, from index \<open>i\<close>.\<close>

fun validate_keywords_loop ::
  "path \<Rightarrow> nat \<Rightarrow> json list \<Rightarrow> ValidationResult \<Rightarrow> ValidationResult" where
  "validate_keywords_loop plugin_path i [] result = result"
| "validate_keywords_loop plugin_path i (keyword # rest) result =
     validate_keywords_loop plugin_path (Suc i) rest
       (case keyword of
          JString s \<Rightarrow> result
        | _ \<Rightarrow>
            add_error ''keyword_type''
              (''Keyword at index '' @ str_nat i @ '' must be string, got '' @ type_name keyword)
              (str_path (plugin_json_path plugin_path)) None result)"

definition validate_keywords :: "path \<Rightarrow> json \<Rightarrow> ValidationResult \<Rightarrow> ValidationResult" where
  "validate_keywords plugin_path keywords result =
     (case keywords of
        JList xs \<Rightarrow> validate_keywords_loop plugin_path 0 xs result
      | _ \<Rightarrow>
          add_error ''keywords_type'' (''Keywords must be array, got '' @ type_name keywords)
            (str_path (plugin_json_path plugin_path)) None result)"

text \<open>The body of the loop of \<^verbatim>\<open>_validate_paths\<close> for one string value.\<close>

definition validate_path_value ::
  "world \<Rightarrow> path \<Rightarrow> string \<Rightarrow> string \<Rightarrow> ValidationResult \<Rightarrow> ValidationResult" where
  \<open>validate_path_value w plugin_path field path_str result =
     (let r1 = (if startswith path_str ''/''
                then add_error (field @ ''_absolute'')
                       (''Path "'' @ path_str @ ''" must be relative, not absolute'')
                       (str_path (plugin_json_path plugin_path)) None result
                else result);
          r2 = (if \<not> startswith path_str ''./''
                then add_warning (field @ ''_prefix'')
                       (''Path "'' @ path_str @ ''" should start with ./ prefix'')
                       (str_path (plugin_json_path plugin_path)) None r1
                else r1);
          full_path = truediv plugin_path (lstrip path_str ''./'')
      in if \<not> path_exists w full_path
         then add_error (field @ ''_exists'') (''Path "'' @ path_str @ ''" does not exist'')
                (str_path (plugin_json_path plugin_path)) None r2
         else r2)\<close>

fun validate_paths_loop ::
  "world \<Rightarrow> path \<Rightarrow> string \<Rightarrow> json list \<Rightarrow> ValidationResult \<Rightarrow> ValidationResult" where
  "validate_paths_loop w plugin_path field [] result = result"
| "validate_paths_loop w plugin_path field (p # rest) result =
     validate_paths_loop w plugin_path field rest
       (case p of
          JString path_str \<Rightarrow> validate_path_value w plugin_path field path_str result
        | _ \<Rightarrow> result)"

definition validate_paths ::
  "world \<Rightarrow> path \<Rightarrow> string \<Rightarrow> json \<Rightarrow> ValidationResult \<Rightarrow> ValidationResult" where
  "validate_paths w plugin_path field paths result =
     (case paths of
        JString s \<Rightarrow> validate_paths_loop w plugin_path field [JString s] result
      | JList xs \<Rightarrow> validate_paths_loop w plugin_path field xs result
      | _ \<Rightarrow>
          add_error (field @ ''_type'')
            (field @ '' must be string or array, got '' @ type_name paths)
            (str_path (plugin_json_path plugin_path)) None result)"

text \<open>\<^verbatim>\<open>if key in data: check(data[key], result)\<close>\<close>

definition when_present ::
  "string \<Rightarrow> json \<Rightarrow> (json \<Rightarrow> ValidationResult \<Rightarrow> ValidationResult) \<Rightarrow> ValidationResult
     \<Rightarrow> py_exn + ValidationResult" where
  "when_present key data chk result =
     then_exn (py_contains key data) (\<lambda>present.
       if present then then_exn (py_getitem data key) (\<lambda>v. Inr (chk v result))
       else Inr result)"

text \<open>The loop over \<^verbatim>\<open>['commands', 'agents', 'skills']\<close>.\<close>

fun validate_path_fields ::
  "world \<Rightarrow> path \<Rightarrow> json \<Rightarrow> string list \<Rightarrow> ValidationResult \<Rightarrow> py_exn + ValidationResult" where
  "validate_path_fields w plugin_path data [] result = Inr result"
| "validate_path_fields w plugin_path data (field # rest) result =
     then_exn (when_present field data (validate_paths w plugin_path field) result)
       (validate_path_fields w plugin_path data rest)"

text \<open>The checks of \<^verbatim>\<open>validate\<close> on the loaded document.\<close>

definition validate_fields ::
  "world \<Rightarrow> path \<Rightarrow> json \<Rightarrow> ValidationResult \<Rightarrow> py_exn + ValidationResult" where
  "validate_fields w plugin_path data result =
     then_exn (py_contains ''name'' data) (\<lambda>has_name.
     then_exn (if \<not> has_name
               then Inr (add_error ''required_field'' ''Missing required field: name''
                           (str_path (plugin_json_path plugin_path)) None result)
               else then_exn (py_getitem data ''name'')
                      (\<lambda>v. Inr (validate_name plugin_path v result))) (\<lambda>r1.
     then_exn (when_present ''version'' data (validate_version w plugin_path) r1) (\<lambda>r2.
     then_exn (when_present ''author'' data (validate_author plugin_path) r2) (\<lambda>r3.
     then_exn (when_present ''license'' data (validate_license plugin_path) r3) (\<lambda>r4.
     then_exn (when_present ''repository'' data (validate_repository plugin_path) r4) (\<lambda>r5.
     then_exn (when_present ''keywords'' data (validate_keywords plugin_path) r5) (\<lambda>r6.
     validate_path_fields w plugin_path data [''commands'', ''agents'', ''skills''] r6)))))))"

definition PluginJsonValidator_validate :: "world \<Rightarrow> path \<Rightarrow> py_exn + ValidationResult" where
  "PluginJsonValidator_validate w plugin_path =
     (let result = new_result in
      if \<not> path_exists w (plugin_json_path plugin_path)
      then Inr (add_error ''file_exists'' ''plugin.json not found''
                  (str_path (plugin_json_path plugin_path)) None result)
      else
        (case json_load w (plugin_json_path plugin_path) of
           Inl (JSONDecodeError msg lineno txt) \<Rightarrow>
             Inr (add_error ''json_syntax'' (''Invalid JSON: '' @ msg)
                    (str_path (plugin_json_path plugin_path)) (Some lineno) result)
         | Inl e \<Rightarrow>
             Inr (add_error ''file_read'' (''Failed to read file: '' @ exn_str e)
                    (str_path (plugin_json_path plugin_path)) None result)
         | Inr data \<Rightarrow> validate_fields w plugin_path data result))"

section \<open>MarketplaceValidator\<close>

definition marketplace_json :: "path \<Rightarrow> path" where
  "marketplace_json marketplace_root = truediv (truediv marketplace_root ''.claude-plugin'') ''marketplace.json''"

text \<open>
  The three comparisons inside the \<^verbatim>\<open>try\<close> block of \<^verbatim>\<open>_validate_plugin_entry\<close>,
  once \<^verbatim>\<open>plugin_data\<close> is loaded.
\<close>

definition check_name_matches ::
  "world \<Rightarrow> path \<Rightarrow> json \<Rightarrow> json \<Rightarrow> ValidationResult \<Rightarrow> py_exn + ValidationResult" where
  \<open>check_name_matches w marketplace_root name plugin_data result =
     then_exn (py_get plugin_data ''name'') (\<lambda>plugin_name.
       Inr (if py_ne plugin_name name
            then add_error ''name_mismatch''
                   (''Plugin name mismatch: marketplace says "'' @ py_str w name
                      @ ''", plugin.json says "'' @ py_str w plugin_name @ ''"'')
                   (str_path (marketplace_json marketplace_root)) None result
            else result))\<close>

definition check_version_matches ::
  "world \<Rightarrow> path \<Rightarrow> json \<Rightarrow> json \<Rightarrow> json \<Rightarrow> ValidationResult \<Rightarrow> py_exn + ValidationResult" where
  \<open>check_version_matches w marketplace_root entry name plugin_data result =
     then_exn (py_contains ''version'' entry) (\<lambda>in_entry.
     then_exn (if in_entry then py_contains ''version'' plugin_data else Inr False) (\<lambda>in_both.
       if in_both
       then then_exn (py_getitem entry ''version'') (\<lambda>entry_version.
            then_exn (py_getitem plugin_data ''version'') (\<lambda>plugin_version.
              Inr (if py_ne entry_version plugin_version
                   then add_error ''version_mismatch''
                          (''Plugin "'' @ py_str w name @ ''" version mismatch: marketplace=''
                             @ py_str w entry_version @ '', plugin.json=''
                             @ py_str w plugin_version)
                          (str_path (marketplace_json marketplace_root)) None result
                   else result)))
       else Inr result))\<close>

definition check_author_format ::
  "world \<Rightarrow> path \<Rightarrow> json \<Rightarrow> json \<Rightarrow> ValidationResult \<Rightarrow> py_exn + ValidationResult" where
  \<open>check_author_format w marketplace_root entry name result =
     then_exn (py_contains ''author'' entry) (\<lambda>has_author.
       if has_author
       then then_exn (py_getitem entry ''author'') (\<lambda>author.
              Inr (case author of
                     JString s \<Rightarrow>
                       add_error ''author_format_marketplace''
                         (''Plugin "'' @ py_str w name
                            @ ''" author in marketplace.json must be object, not string'')
                         (str_path (marketplace_json marketplace_root)) None result
                   | _ \<Rightarrow> result))
       else Inr result)\<close>

text \<open>The \<^verbatim>\<open>try\<close> block with its handler.\<close>

definition check_consistency ::
  "world \<Rightarrow> path \<Rightarrow> json \<Rightarrow> json \<Rightarrow> path \<Rightarrow> ValidationResult \<Rightarrow> ValidationResult" where
  \<open>check_consistency w marketplace_root entry name manifest_path result =
     (let (raised, r) =
        (case json_load w manifest_path of
           Inl e \<Rightarrow> (Some e, result)
         | Inr plugin_data \<Rightarrow>
             run_steps [check_name_matches w marketplace_root name plugin_data,
                        check_version_matches w marketplace_root entry name plugin_data,
                        check_author_format w marketplace_root entry name] result)
      in case raised of
           None \<Rightarrow> r
         | Some e \<Rightarrow>
             add_warning ''plugin_json_read''
               (''Could not read plugin.json for "'' @ py_str w name @ ''": '' @ exn_str e)
               (str_path (marketplace_json marketplace_root)) None r)\<close>

text \<open>The part of \<^verbatim>\<open>_validate_plugin_entry\<close> from \<^verbatim>\<open>source = entry['source']\<close> on.\<close>

definition check_source ::
  "world \<Rightarrow> path \<Rightarrow> json \<Rightarrow> json \<Rightarrow> json \<Rightarrow> ValidationResult \<Rightarrow> ValidationResult" where
  \<open>check_source w marketplace_root entry name source result =
     (case source of
        JString s \<Rightarrow>
          (let source_path = truediv marketplace_root (lstrip s ''./'') in
           if \<not> path_exists w source_path
           then add_error ''source_path_missing''
                  (''Plugin "'' @ py_str w name @ ''" source path does not exist: '' @ s)
                  (str_path (marketplace_json marketplace_root)) None result
           else
             (let manifest_path = truediv (truediv source_path ''.claude-plugin'') ''plugin.json'' in
              if \<not> path_exists w manifest_path
              then add_error ''plugin_json_missing''
                     (''Plugin "'' @ py_str w name @ ''" missing .claude-plugin/plugin.json at '' @ s)
                     (str_path (marketplace_json marketplace_root)) None result
              else check_consistency w marketplace_root entry name manifest_path result))
      | _ \<Rightarrow>
          add_error ''source_type'' (''Plugin "'' @ py_str w name @ ''" source must be string'')
            (str_path (marketplace_json marketplace_root)) None result)\<close>

text \<open>
  \<^verbatim>\<open>_validate_plugin_entry\<close>: the result and the set \<^verbatim>\<open>plugin_names\<close> are both
  updated in place by the program, and both are returned here.
\<close>

definition validate_plugin_entry ::
  "world \<Rightarrow> path \<Rightarrow> json \<Rightarrow> nat \<Rightarrow> json list \<Rightarrow> ValidationResult
     \<Rightarrow> py_exn + (ValidationResult \<times> json list)" where
  \<open>validate_plugin_entry w marketplace_root entry index plugin_names result =
     then_exn (py_contains ''name'' entry) (\<lambda>has_name.
       if \<not> has_name
       then Inr (add_error ''plugin_name_missing''
                   (''Plugin at index '' @ str_nat index @ '' missing "name" field'')
                   (str_path (marketplace_json marketplace_root)) None result,
                 plugin_names)
       else
         then_exn (py_getitem entry ''name'') (\<lambda>name.
         then_exn (set_contains name plugin_names) (\<lambda>seen.
           (let r1 = (if seen
                      then add_error ''duplicate_plugin''
                             (''Duplicate plugin name: "'' @ py_str w name @ ''"'')
                             (str_path (marketplace_json marketplace_root)) None result
                      else result);
                names1 = set_add name plugin_names
            in then_exn (py_contains ''source'' entry) (\<lambda>has_source.
                 if \<not> has_source
                 then Inr (add_error ''plugin_source_missing''
                             (''Plugin "'' @ py_str w name @ ''" missing "source" field'')
                             (str_path (marketplace_json marketplace_root)) None r1,
                           names1)
                 else
                   then_exn (py_getitem entry ''source'') (\<lambda>source.
                     Inr (check_source w marketplace_root entry name source r1, names1)))))))\<close>

text \<open>The loop over \<^verbatim>\<open>enumerate(data['plugins'])\<close>, from index \<open>i\<close>.\<close>

fun validate_entries ::
  "world \<Rightarrow> path \<Rightarrow> nat \<Rightarrow> json list \<Rightarrow> json list \<Rightarrow> ValidationResult
     \<Rightarrow> py_exn + (ValidationResult \<times> json list)" where
  "validate_entries w marketplace_root i [] plugin_names result = Inr (result, plugin_names)"
| "validate_entries w marketplace_root i (plugin_entry # rest) plugin_names result =
     (case validate_plugin_entry w marketplace_root plugin_entry i plugin_names result of
        Inl e \<Rightarrow> Inl e
      | Inr (r, names) \<Rightarrow> validate_entries w marketplace_root (Suc i) rest names r)"

text \<open>The loop over \<^verbatim>\<open>['name', 'owner', 'plugins']\<close>.\<close>

fun check_required_fields ::
  "path \<Rightarrow> json \<Rightarrow> string list \<Rightarrow> ValidationResult \<Rightarrow> py_exn + ValidationResult" where
  "check_required_fields marketplace_root data [] result = Inr result"
| "check_required_fields marketplace_root data (field # rest) result =
     (case py_contains field data of
        Inl e \<Rightarrow> Inl e
      | Inr present \<Rightarrow>
          check_required_fields marketplace_root data rest
            (if \<not> present
             then add_error ''required_field'' (''Missing required field: '' @ field)
                    (str_path (marketplace_json marketplace_root)) None result
             else result))"

definition check_owner :: "path \<Rightarrow> json \<Rightarrow> ValidationResult \<Rightarrow> py_exn + ValidationResult" where
  \<open>check_owner marketplace_root data result =
     then_exn (py_contains ''owner'' data) (\<lambda>has_owner.
       if has_owner
       then then_exn (py_getitem data ''owner'') (\<lambda>owner.
              case owner of
                JObject kvs \<Rightarrow>
                  Inr (if ''name'' \<notin> set (map fst kvs)
                       then add_error ''owner_name'' ''Owner must have "name" field''
                              (str_path (marketplace_json marketplace_root)) None result
                       else result)
              | _ \<Rightarrow>
                  Inr (add_error ''owner_type'' ''Owner must be object''
                         (str_path (marketplace_json marketplace_root)) None result))
       else Inr result)\<close>

definition check_plugins ::
  "world \<Rightarrow> path \<Rightarrow> json \<Rightarrow> ValidationResult \<Rightarrow> py_exn + ValidationResult" where
  "check_plugins w marketplace_root data result =
     then_exn (py_contains ''plugins'' data) (\<lambda>has_plugins.
       if \<not> has_plugins then Inr result
       else
         then_exn (py_getitem data ''plugins'') (\<lambda>plugins.
           case plugins of
             JList entries \<Rightarrow>
               then_exn (validate_entries w marketplace_root 0 entries [] result) (\<lambda>(r, names). Inr r)
           | _ \<Rightarrow>
               Inr (add_error ''plugins_type''
                      (''Plugins must be array, got '' @ type_name plugins)
                      (str_path (marketplace_json marketplace_root)) None result)))"

definition MarketplaceValidator_validate :: "world \<Rightarrow> path \<Rightarrow> py_exn + ValidationResult" where
  "MarketplaceValidator_validate w marketplace_root =
     (let result = new_result in
      if \<not> path_exists w (marketplace_json marketplace_root)
      then Inr (add_error ''file_exists'' ''marketplace.json not found''
                  (str_path (marketplace_json marketplace_root)) None result)
      else
        (case json_load w (marketplace_json marketplace_root) of
           Inl (JSONDecodeError msg lineno txt) \<Rightarrow>
             Inr (add_error ''json_syntax'' (''Invalid JSON: '' @ msg)
                    (str_path (marketplace_json marketplace_root)) (Some lineno) result)
         | Inl e \<Rightarrow> Inl e
         | Inr data \<Rightarrow>
             then_exn (check_required_fields marketplace_root data [''name'', ''owner'', ''plugins''] result)
               (\<lambda>r1. then_exn (check_owner marketplace_root data r1) (check_plugins w marketplace_root data))))"

section \<open>SkillsValidator\<close>

definition discover_skills :: "world \<Rightarrow> path \<Rightarrow> py_exn + path list" where
  "discover_skills w plugin_path =
     (let skills_dir = truediv plugin_path ''skills'' in
      if \<not> path_exists w skills_dir then Inr []
      else
        then_exn (path_iterdir w skills_dir) (\<lambda>entries.
          Inr (filter (\<lambda>skill_dir. path_is_dir w skill_dir
                         \<and> path_exists w (truediv skill_dir ''SKILL.md'')) entries)))"

definition skills_ref_cmd :: "path \<Rightarrow> string list" where
  "skills_ref_cmd skill_path =
     [''uvx'', ''--from'',
      ''git+https://github.com/agentskills/agentskills#subdirectory=skills-ref'',
      ''skills-ref'', ''validate'', str_path skill_path]"

definition validate_skill :: "world \<Rightarrow> path \<Rightarrow> ValidationResult" where
  "validate_skill w skill_path =
     (let result = new_result in
      if \<not> path_exists w (truediv skill_path ''SKILL.md'')
      then add_error ''skill_md_missing'' ''SKILL.md file not found'' (str_path skill_path) None result
      else
        (case subprocess_run w (skills_ref_cmd skill_path) of
           Inr proc \<Rightarrow>
             if returncode proc \<noteq> 0
             then add_error ''skills_ref_validation''
                    (''skills-ref validation failed:'' @ nl @ stdout proc @ nl @ stderr proc)
                    (str_path skill_path) None result
             else result
         | Inl (TimeoutExpired txt) \<Rightarrow>
             add_error ''skills_ref_timeout'' ''skills-ref validation timed out (30s)''
               (str_path skill_path) None result
         | Inl (FileNotFoundError txt) \<Rightarrow>
             add_error ''skills_ref_missing''
               ''uvx not found. Install with: curl -LsSf https://astral.sh/uv/install.sh | sh''
               (str_path skill_path) None result
         | Inl e \<Rightarrow>
             add_error ''skills_ref_error'' (''Failed to run skills-ref: '' @ exn_str e)
               (str_path skill_path) None result))"

section \<open>Reporting and exit status\<close>

text \<open>
  \<^verbatim>\<open>print_json_results\<close> prints \<^verbatim>\<open>json.dumps(output, indent=2)\<close>; the model
  gives the document \<^verbatim>\<open>output\<close>. The two dicts of results are lists of items in
  insertion order.
\<close>

definition issue_to_dict :: "ValidationIssue \<Rightarrow> json" where
  "issue_to_dict issue =
     JObject [(''check'', JString (check issue)),
              (''message'', JString (message issue)),
              (''file'', JString (file' issue)),
              (''line'', (case line issue of None \<Rightarrow> JNull | Some n \<Rightarrow> JInt n))]"

definition result_to_dict :: "ValidationResult \<Rightarrow> json" where
  "result_to_dict result =
     JObject [(''status'', JString (status result)),
              (''errors'', JList (map issue_to_dict (errors result))),
              (''warnings'', JList (map issue_to_dict (warnings result)))]"

definition count_status :: "(string \<Rightarrow> bool) \<Rightarrow> (string \<times> ValidationResult) list \<Rightarrow> json" where
  "count_status p results = JInt (int (length (filter (\<lambda>r. p (status r)) (map snd results))))"

definition print_json_results ::
  "ValidationResult option \<Rightarrow> ValidationResult option \<Rightarrow> (string \<times> ValidationResult) list
     \<Rightarrow> (string \<times> ValidationResult) list \<Rightarrow> json" where
  "print_json_results root_result marketplace_result plugin_results skill_results =
     JObject
       [(''root_plugin'', (case root_result of Some r \<Rightarrow> result_to_dict r | None \<Rightarrow> JNull)),
        (''marketplace'', (case marketplace_result of Some r \<Rightarrow> result_to_dict r | None \<Rightarrow> JNull)),
        (''plugins'', JObject (map (\<lambda>(name, result). (name, result_to_dict result)) plugin_results)),
        (''skills'', JObject (map (\<lambda>(name, result). (name, result_to_dict result)) skill_results)),
        (''summary'', JObject
           [(''total_plugins'', JInt (int (length plugin_results))),
            (''plugins_passed'', count_status (\<lambda>s. s = ''passed'') plugin_results),
            (''plugins_warnings'', count_status (\<lambda>s. s = ''warning'') plugin_results),
            (''plugins_failed'', count_status (\<lambda>s. s = ''failed'') plugin_results),
            (''total_skills'', JInt (int (length skill_results))),
            (''skills_passed'', count_status (\<lambda>s. s = ''passed'') skill_results),
            (''skills_failed'', count_status (\<lambda>s. s \<in> set [''warning'', ''failed'']) skill_results)])]"

text \<open>
  \<^verbatim>\<open>print_text_results\<close> and \<^verbatim>\<open>_print_result\<close> print through
  \<^verbatim>\<open>console.print\<close>, line by line; an exception of the console ends the printing and
  is not handled. The icons are the characters of the source file, in UTF-8.
\<close>

definition icon_search :: string where
  "icon_search = [CHR 0xC3, CHR 0xB0, CHR 0xC5, CHR 0xB8, CHR 0xE2, CHR 0x80, CHR 0x9D]"

definition icon_target :: string where
  "icon_target = [CHR 0xC3, CHR 0xB0, CHR 0xC5, CHR 0xB8, CHR 0xC5, CHR 0xBD, CHR 0xC2, CHR 0xAF]"

definition icon_passed :: string where
  "icon_passed = [CHR 0xC3, CHR 0xA2, CHR 0xC5, CHR 0x93, CHR 0xE2, CHR 0x80, CHR 0xA6]"

definition icon_warning :: string where
  "icon_warning = [CHR 0xC3, CHR 0xA2, CHR 0xC5, CHR 0xA1, CHR 0xC2, CHR 0xA0, CHR 0xC3, CHR 0xAF, CHR 0xC2, CHR 0xB8]"

definition icon_failed :: string where
  "icon_failed = [CHR 0xC3, CHR 0xA2, CHR 0xC5, CHR 0x92]"

definition icon_info :: string where
  "icon_info = [CHR 0xC3, CHR 0xA2, CHR 0xE2, CHR 0x80, CHR 0x9E, CHR 0xC2, CHR 0xB9, CHR 0xC3, CHR 0xAF, CHR 0xC2, CHR 0xB8]"

definition icon_rule :: string where
  "icon_rule = [CHR 0xC3, CHR 0xA2, CHR 0xE2, CHR 0x80, CHR 0x9D]"

text \<open>\<^verbatim>\<open>console.print\<close> of each line in turn.\<close>

fun console_print_all :: "world \<Rightarrow> string list \<Rightarrow> py_exn + unit" where
  "console_print_all w [] = Inr ()"
| "console_print_all w (text # rest) =
     (case console_print w text of Inl e \<Rightarrow> Inl e | Inr u \<Rightarrow> console_print_all w rest)"

text \<open>\<^verbatim>\<open>location\<close>: the file, and the line when there is one that is not zero.\<close>

definition location :: "ValidationIssue \<Rightarrow> string" where
  "location issue =
     '' ('' @ file' issue
       @ (case line issue of
            Some n \<Rightarrow> if n \<noteq> 0 then '':'' @ str_int n else []
          | None \<Rightarrow> [])
       @ '')''"

definition print_result :: "world \<Rightarrow> string \<Rightarrow> ValidationResult \<Rightarrow> py_exn + unit" where
  "print_result w title result =
     then_exn
       (console_print w
          (if status result = ''passed'' then nl @ ''[green]'' @ icon_passed @ '' '' @ title @ ''[/green]''
           else if status result = ''warning''
           then nl @ ''[yellow]'' @ icon_warning @ ''  '' @ title @ ''[/yellow]''
           else nl @ ''[red]'' @ icon_failed @ '' '' @ title @ ''[/red]'')) (\<lambda>u1.
     then_exn
       (console_print_all w
          (map (\<lambda>error. ''   [red]'' @ icon_failed @ '' Error: '' @ message error @ ''[/red]''
                  @ location error) (errors result))) (\<lambda>u2.
     then_exn
       (console_print_all w
          (map (\<lambda>warning. ''   [yellow]'' @ icon_warning @ ''  Warning: '' @ message warning
                  @ ''[/yellow]'' @ location warning) (warnings result))) (\<lambda>u3.
     console_print_all w
       (map (\<lambda>note. ''   [dim]'' @ icon_info @ ''  '' @ message note @ ''[/dim]'')
          (info result)))))"

text \<open>The loop over \<^verbatim>\<open>plugin_results.items()\<close>.\<close>

fun print_plugin_results :: "world \<Rightarrow> (string \<times> ValidationResult) list \<Rightarrow> py_exn + unit" where
  "print_plugin_results w [] = Inr ()"
| "print_plugin_results w ((name, result) # rest) =
     (case print_result w (''Plugin: '' @ name) result of
        Inl e \<Rightarrow> Inl e
      | Inr u \<Rightarrow> print_plugin_results w rest)"

definition count_plugins :: "string \<Rightarrow> (string \<times> ValidationResult) list \<Rightarrow> nat" where
  "count_plugins s plugin_results = length (filter (\<lambda>r. status r = s) (map snd plugin_results))"

definition print_text_results ::
  "world \<Rightarrow> ValidationResult option \<Rightarrow> ValidationResult option
     \<Rightarrow> (string \<times> ValidationResult) list \<Rightarrow> (string \<times> ValidationResult) list
     \<Rightarrow> py_exn + unit" where
  "print_text_results w root_result marketplace_result plugin_results skill_results =
     then_exn
       (console_print w
          (nl @ ''[bold blue]'' @ icon_search @ '' Validating Claude Plugins Marketplace...[/bold blue]''
             @ nl)) (\<lambda>u1.
     then_exn
       (case root_result of
          Some r \<Rightarrow> print_result w ''Root Plugin (.claude-plugin/plugin.json)'' r
        | None \<Rightarrow> Inr ()) (\<lambda>u2.
     then_exn
       (case marketplace_result of
          Some r \<Rightarrow> print_result w ''Marketplace Registry (.claude-plugin/marketplace.json)'' r
        | None \<Rightarrow> Inr ()) (\<lambda>u3.
     then_exn (print_plugin_results w plugin_results) (\<lambda>u4.
     then_exn
       (if skill_results \<noteq> []
        then then_exn
               (console_print w (nl @ ''[bold cyan]'' @ icon_target @ '' Skills Validation[/bold cyan]''))
               (\<lambda>u. console_print_all w
                  (map (\<lambda>(skill_name, result).
                          ''   ''
                          @ (if status result = ''passed'' then icon_passed
                             else if status result = ''warning'' then icon_warning
                             else icon_failed)
                          @ '' '' @ skill_name) skill_results))
        else Inr ()) (\<lambda>u5.
     then_exn (console_print w (nl @ concat (replicate 60 icon_rule))) (\<lambda>u6.
     then_exn (console_print w ''[bold]Summary:[/bold]'') (\<lambda>u7.
     then_exn
       (console_print w
          (''  '' @ icon_passed @ '' '' @ str_nat (count_plugins ''passed'' plugin_results)
             @ '' plugins passed'')) (\<lambda>u8.
     then_exn
       (if count_plugins ''warning'' plugin_results \<noteq> 0
        then console_print w
               (''  '' @ icon_warning @ ''  '' @ str_nat (count_plugins ''warning'' plugin_results)
                  @ '' plugins with warnings'')
        else Inr ()) (\<lambda>u9.
     then_exn
       (if count_plugins ''failed'' plugin_results \<noteq> 0
        then console_print w
               (''  '' @ icon_failed @ '' '' @ str_nat (count_plugins ''failed'' plugin_results)
                  @ '' plugins failed'')
        else Inr ()) (\<lambda>u10.
     console_print w
       (''  '' @ icon_target @ '' '' @ str_nat (length skill_results) @ '' skills validated'')))))))))))"

text \<open>The expression \<^verbatim>\<open>has_errors\<close> of \<^verbatim>\<open>main\<close> and the argument of \<^verbatim>\<open>sys.exit\<close>.\<close>

definition has_errors ::
  "ValidationResult option \<Rightarrow> ValidationResult option \<Rightarrow> (string \<times> ValidationResult) list
     \<Rightarrow> (string \<times> ValidationResult) list \<Rightarrow> bool" where
  "has_errors root_result marketplace_result plugin_results skill_results =
     ((case root_result of Some r \<Rightarrow> status r = ''failed'' | None \<Rightarrow> False)
      \<or> (case marketplace_result of Some r \<Rightarrow> status r = ''failed'' | None \<Rightarrow> False)
      \<or> list_ex (\<lambda>r. status r = ''failed'') (map snd plugin_results)
      \<or> list_ex (\<lambda>r. status r = ''failed'') (map snd skill_results))"

definition exit_code ::
  "ValidationResult option \<Rightarrow> ValidationResult option \<Rightarrow> (string \<times> ValidationResult) list
     \<Rightarrow> (string \<times> ValidationResult) list \<Rightarrow> int" where
  "exit_code root_result marketplace_result plugin_results skill_results =
     (if has_errors root_result marketplace_result plugin_results skill_results then 1 else 0)"

section \<open>main\<close>

text \<open>
  What a run that reaches \<^verbatim>\<open>sys.exit\<close> leaves behind: the four collections of
  results, the document printed when the output format is \<^verbatim>\<open>json\<close> (the lines of
  the other format go to the console), and the exit status.
\<close>

record run =
  run_root :: "ValidationResult option"
  run_marketplace :: "ValidationResult option"
  run_plugins :: "(string \<times> ValidationResult) list"
  run_skills :: "(string \<times> ValidationResult) list"
  run_printed :: "json option"
  run_exit :: int

text \<open>The loop over the skills of one plugin.\<close>

fun validate_skills_loop ::
  "world \<Rightarrow> string \<Rightarrow> path list \<Rightarrow> (string \<times> ValidationResult) list
     \<Rightarrow> (string \<times> ValidationResult) list" where
  "validate_skills_loop w plugin_name [] skill_results = skill_results"
| "validate_skills_loop w plugin_name (skill_path # rest) skill_results =
     validate_skills_loop w plugin_name rest
       (AList.update (plugin_name @ ''/'' @ path_name skill_path)
          (validate_skill w skill_path) skill_results)"

text \<open>The loop over \<^verbatim>\<open>plugins_to_validate\<close>.\<close>

fun validate_plugins_loop ::
  "world \<Rightarrow> bool \<Rightarrow> path list
     \<Rightarrow> (string \<times> ValidationResult) list \<times> (string \<times> ValidationResult) list
     \<Rightarrow> py_exn + ((string \<times> ValidationResult) list \<times> (string \<times> ValidationResult) list)" where
  "validate_plugins_loop w skip_skills [] results = Inr results"
| "validate_plugins_loop w skip_skills (plugin_path # rest) (plugin_results, skill_results) =
     (case PluginJsonValidator_validate w plugin_path of
        Inl e \<Rightarrow> Inl e
      | Inr r \<Rightarrow>
          (let plugin_results1 = AList.update (path_name plugin_path) r plugin_results in
           if \<not> skip_skills
           then (case discover_skills w plugin_path of
                   Inl e \<Rightarrow> Inl e
                 | Inr skills \<Rightarrow>
                     validate_plugins_loop w skip_skills rest
                       (plugin_results1,
                        validate_skills_loop w (path_name plugin_path) skills skill_results))
           else validate_plugins_loop w skip_skills rest (plugin_results1, skill_results)))"

definition plugins_to_validate :: "world \<Rightarrow> path \<Rightarrow> path option \<Rightarrow> py_exn + path list" where
  "plugins_to_validate w marketplace_root plugin =
     (case plugin of
        Some p \<Rightarrow> Inr [p]
      | None \<Rightarrow>
          (let plugins_dir = truediv marketplace_root ''plugins'' in
           if path_exists w plugins_dir
           then then_exn (path_iterdir w plugins_dir) (\<lambda>ps. Inr (filter (path_is_dir w) ps))
           else Inr []))"

definition main :: "world \<Rightarrow> path option \<Rightarrow> bool \<Rightarrow> string \<Rightarrow> bool \<Rightarrow> bool \<Rightarrow> py_exn + run" where
  "main w plugin skip_skills output verbose no_color =
     (let marketplace_root =
        (case plugin of
           Some p \<Rightarrow>
             if path_name (path_parent p) = ''plugins'' then path_parent (path_parent p)
             else path_cwd w
         | None \<Rightarrow> path_cwd w)
      in
      then_exn (if path_exists w (truediv (truediv marketplace_root ''.claude-plugin'') ''plugin.json'')
                then then_exn (PluginJsonValidator_validate w marketplace_root) (\<lambda>r. Inr (Some r))
                else Inr None) (\<lambda>root_result.
      then_exn (if path_exists w (truediv (truediv marketplace_root ''.claude-plugin'') ''marketplace.json'')
                then then_exn (MarketplaceValidator_validate w marketplace_root) (\<lambda>r. Inr (Some r))
                else Inr None) (\<lambda>marketplace_result.
      then_exn (plugins_to_validate w marketplace_root plugin) (\<lambda>to_validate.
      then_exn (validate_plugins_loop w skip_skills to_validate ([], [])) (\<lambda>(plugin_results, skill_results).
      then_exn (if output = ''json''
                then Inr (Some (print_json_results root_result marketplace_result
                                  plugin_results skill_results))
                else then_exn (print_text_results w root_result marketplace_result
                                 plugin_results skill_results) (\<lambda>u. Inr None)) (\<lambda>printed.
        Inr \<lparr>run_root = root_result,
             run_marketplace = marketplace_result,
             run_plugins = plugin_results,
             run_skills = skill_results,
             run_printed = printed,
             run_exit = exit_code root_result marketplace_result plugin_results skill_results\<rparr>))))))"

text \<open>
  The options as \<^verbatim>\<open>click\<close> checks them before it calls \<^verbatim>\<open>main\<close>: the path of
  \<^verbatim>\<open>--plugin\<close> must exist (\<^verbatim>\<open>click.Path(exists=True)\<close>) and \<^verbatim>\<open>--output\<close> must
  be one of the two choices.
\<close>

definition click_accepts :: "world \<Rightarrow> path option \<Rightarrow> string \<Rightarrow> bool" where
  "click_accepts w plugin output =
     ((case plugin of Some p \<Rightarrow> path_exists w p | None \<Rightarrow> True)
      \<and> output \<in> set [''text'', ''json''])"

text \<open>
  The exit status of the process: 2 when \<^verbatim>\<open>click\<close> refuses the options, 1 when an
  exception that nothing handles ends the run, and the argument of \<^verbatim>\<open>sys.exit\<close>
  otherwise.
\<close>

definition command_exit_status ::
  "world \<Rightarrow> path option \<Rightarrow> bool \<Rightarrow> string \<Rightarrow> bool \<Rightarrow> bool \<Rightarrow> int" where
  "command_exit_status w plugin skip_skills output verbose no_color =
     (if \<not> click_accepts w plugin output then 2
      else (case main w plugin skip_skills output verbose no_color of
              Inl e \<Rightarrow> 1
            | Inr rn \<Rightarrow> run_exit rn))"

section \<open>Notions used to state the properties\<close>

text \<open>
  The status that the issues of a result call for: failed with an error issue, else
  warning with a warning issue, else passed.
\<close>

definition status_of_issues :: "ValidationResult \<Rightarrow> string" where
  "status_of_issues r =
     (if errors r \<noteq> [] then ''failed'' else if warnings r \<noteq> [] then ''warning'' else ''passed'')"

definition status_consistent :: "ValidationResult \<Rightarrow> bool" where
  "status_consistent r = (status r = status_of_issues r)"

text \<open>A result that one of the three validators returns.\<close>

definition produced_by_validator :: "world \<Rightarrow> path \<Rightarrow> ValidationResult \<Rightarrow> bool" where
  "produced_by_validator w p r =
     (PluginJsonValidator_validate w p = Inr r \<or> MarketplaceValidator_validate w p = Inr r
      \<or> validate_skill w p = r)"

text \<open>A property of the value of a computation, when it returns one.\<close>

definition on_return :: "('a \<Rightarrow> bool) \<Rightarrow> 'e + 'a \<Rightarrow> bool" where
  "on_return P m = (case m of Inl e \<Rightarrow> True | Inr x \<Rightarrow> P x)"

text \<open>
  A small world for concrete runs: the paths that exist, and the documents that
  \<^verbatim>\<open>json.load\<close> finds (or the exception it raises) at some of them. There are no
  directories to list and no \<^verbatim>\<open>uvx\<close> executable; the console prints every line
  (the lines of the runs on this world hold no markup of their own); the only digit
  beyond ASCII is the Arabic-Indic three.
\<close>

definition fixture :: "path list \<Rightarrow> (path \<times> (py_exn + json)) list \<Rightarrow> world" where
  "fixture present docs =
     \<lparr>path_exists = (\<lambda>p. p \<in> set present),
      path_is_dir = (\<lambda>p. False),
      path_iterdir = (\<lambda>p. Inr []),
      json_load = (\<lambda>p. case map_of docs p of Some d \<Rightarrow> d
                         | None \<Rightarrow> Inl (FileNotFoundError ''No such file or directory'')),
      subprocess_run = (\<lambda>cmd. Inl (FileNotFoundError ''No such file or directory'')),
      path_cwd = Path True [''repo''],
      py_repr = (\<lambda>v. ''?''),
      console_print = (\<lambda>s. Inr ()),
      decimal_digits = [[CHR 0xD9, CHR 0xA3]]\<rparr>"

text \<open>The result that holds one error issue and nothing else.\<close>

definition single_error :: "string \<Rightarrow> string \<Rightarrow> string \<Rightarrow> int option \<Rightarrow> ValidationResult" where
  "single_error chk msg fl lineno =
     \<lparr>status = ''failed'',
      errors = [\<lparr>severity = ''error'', check = chk, message = msg, file' = fl, line = lineno\<rparr>],
      warnings = [], info = []\<rparr>"

text \<open>Some result of the run, whatever its subject, has status failed.\<close>

definition any_failed :: "run \<Rightarrow> bool" where
  "any_failed rn =
     ((\<exists>r. run_root rn = Some r \<and> status r = ''failed'')
      \<or> (\<exists>r. run_marketplace rn = Some r \<and> status r = ''failed'')
      \<or> (\<exists>name r. (name, r) \<in> set (run_plugins rn) \<and> status r = ''failed'')
      \<or> (\<exists>name r. (name, r) \<in> set (run_skills rn) \<and> status r = ''failed''))"

text \<open>The paths of the concrete runs.\<close>

definition demo_root :: path where
  "demo_root = Path True [''repo'']"

definition demo_plugin :: path where
  "demo_plugin = Path True [''repo'', ''plugins'', ''demo'']"

definition demo_manifest :: path where
  "demo_manifest = Path True [''repo'', ''plugins'', ''demo'', ''.claude-plugin'', ''plugin.json'']"

definition demo_skill :: path where
  "demo_skill = Path True [''repo'', ''plugins'', ''demo'', ''skills'', ''review'']"

text \<open>A world in which the skill has its marker file and the inspector ends as given.\<close>

definition inspector_world :: "py_exn + completed_process \<Rightarrow> world" where
  "inspector_world outcome =
     (fixture [Path True [''repo'', ''plugins'', ''demo'', ''skills'', ''review'', ''SKILL.md'']] [])
       \<lparr>subprocess_run := (\<lambda>cmd. outcome)\<rparr>"

text \<open>
  The manifest path that \<^verbatim>\<open>_validate_plugin_entry\<close> derives from an entry's source.
\<close>

definition entry_manifest_path :: "path \<Rightarrow> string \<Rightarrow> path" where
  "entry_manifest_path mroot source =
     truediv (truediv (truediv mroot (lstrip source ''./'')) ''.claude-plugin'') ''plugin.json''"

text \<open>
  The three discrepancies between a registry entry (its items) and the plugin's own
  manifest (its items), with \<^verbatim>\<open>!=\<close> of Python as the meaning of ``differ''.
\<close>

definition names_differ :: "json \<Rightarrow> (string \<times> json) list \<Rightarrow> bool" where
  "names_differ name manifest = py_ne (dict_get manifest ''name'') name"

definition versions_differ :: "(string \<times> json) list \<Rightarrow> (string \<times> json) list \<Rightarrow> bool" where
  "versions_differ items manifest =
     (case (map_of items ''version'', map_of manifest ''version'') of
        (Some entry_version, Some plugin_version) \<Rightarrow> py_ne entry_version plugin_version
      | _ \<Rightarrow> False)"

definition author_is_string :: "(string \<times> json) list \<Rightarrow> bool" where
  "author_is_string items = (case map_of items ''author'' of Some (JString s) \<Rightarrow> True | _ \<Rightarrow> False)"

text \<open>
  The name is a member of the set \<^verbatim>\<open>plugin_names\<close>.
\<close>

definition seen_before :: "json \<Rightarrow> json list \<Rightarrow> bool" where
  "seen_before name plugin_names = list_ex (py_eq name) plugin_names"

text \<open>
  The name of a registry entry, and the entries whose name is a string.
\<close>

definition name_of :: "json \<Rightarrow> json" where
  "name_of entry = (case entry of JObject items \<Rightarrow> dict_get items ''name'' | _ \<Rightarrow> JNull)"

definition string_named :: "json \<Rightarrow> bool" where
  "string_named entry =
     (case entry of
        JObject items \<Rightarrow> (case map_of items ''name'' of Some (JString n) \<Rightarrow> True | _ \<Rightarrow> False)
      | _ \<Rightarrow> False)"

text \<open>
  The checks that \<^verbatim>\<open>_validate_plugin_entry\<close> makes after the duplicate test: the source
  field, the source path, the manifest file and the cross-reference.
\<close>

definition remaining_checks :: "world \<Rightarrow> path \<Rightarrow> json \<Rightarrow> ValidationResult \<Rightarrow> ValidationResult" where
  \<open>remaining_checks w mroot entry result =
     (case entry of
        JObject items \<Rightarrow>
          (case map_of items ''source'' of
             None \<Rightarrow>
               add_error ''plugin_source_missing''
                 (''Plugin "'' @ py_str w (name_of entry) @ ''" missing "source" field'')
                 (str_path (marketplace_json mroot)) None result
           | Some source \<Rightarrow> check_source w mroot entry (name_of entry) source result)
      | _ \<Rightarrow> result)\<close>

text \<open>
  The \<^verbatim>\<open>duplicate_plugin\<close> error for a name, and the errors of that kind in a result.
\<close>

definition duplicate_issue :: "world \<Rightarrow> path \<Rightarrow> json \<Rightarrow> ValidationIssue" where
  \<open>duplicate_issue w mroot name =
     \<lparr>severity = ''error'', check = ''duplicate_plugin'',
      message = ''Duplicate plugin name: "'' @ py_str w name @ ''"'',
      file' = str_path (marketplace_json mroot), line = None\<rparr>\<close>

definition duplicate_errors :: "ValidationResult \<Rightarrow> ValidationIssue list" where
  "duplicate_errors r = filter (\<lambda>issue. check issue = ''duplicate_plugin'') (errors r)"

text \<open>
  The names of a sequence that occur earlier in the sequence or in the set given.
\<close>

fun repeated :: "json set \<Rightarrow> json list \<Rightarrow> json list" where
  "repeated seen [] = []"
| "repeated seen (n # ns) = (if n \<in> seen then [n] else []) @ repeated (insert n seen) ns"

text \<open>
  Documents and worlds of the concrete runs.
\<close>

definition mismatched_entry :: "(string \<times> json) list" where
  "mismatched_entry =
     [(''name'', JString ''demo''), (''source'', JString ''./plugins/demo''),
      (''version'', JString ''2.0.0''), (''author'', JString ''Bob'')]"

definition mismatched_manifest :: "(string \<times> json) list" where
  "mismatched_manifest = [(''name'', JString ''other''), (''version'', JString ''1.0.0'')]"

definition plain_entry :: "(string \<times> json) list" where
  "plain_entry = [(''name'', JString ''demo''), (''source'', JString ''./plugins/demo'')]"

definition broken_manifest_world :: world where
  "broken_manifest_world =
     fixture [demo_plugin, demo_manifest]
       [(demo_manifest, Inl (JSONDecodeError ''Expecting value'' 1
           ''Expecting value: line 1 column 1 (char 0)''))]"

definition dup_first :: json where
  "dup_first = JObject [(''name'', JString ''dup''), (''source'', JString ''./plugins/demo'')]"

definition dup_second :: json where
  "dup_second = JObject [(''name'', JString ''dup'')]"

text \<open>
  The specification's wording of the path whose existence is checked: the value with a
  leading \<^verbatim>\<open>./\<close> removed.
\<close>

definition strip_dot_slash :: "string \<Rightarrow> string" where
  "strip_dot_slash s = (if startswith s ''./'' then drop 2 s else s)"

text \<open>
  The specification's wording of the name pattern: lowercase letters and digits, in
  segments separated by single hyphens, starting with a letter.
\<close>

definition is_lower :: "char \<Rightarrow> bool" where
  "is_lower c = ((of_char (CHR ''a'') :: nat) \<le> of_char c \<and> (of_char c :: nat) \<le> of_char (CHR ''z''))"

definition is_digit :: "char \<Rightarrow> bool" where
  "is_digit c = ((of_char (CHR ''0'') :: nat) \<le> of_char c \<and> (of_char c :: nat) \<le> of_char (CHR ''9''))"

definition kebab_case :: "string \<Rightarrow> bool" where
  "kebab_case s =
     (case s of
        [] \<Rightarrow> False
      | c # cs \<Rightarrow>
          is_lower c
          \<and> list_all (\<lambda>segment. segment \<noteq> [] \<and> list_all (\<lambda>d. is_lower d \<or> is_digit d) segment)
                (split_on (CHR ''-'') s))"

text \<open>
  The check codes of the issues that the name check raises on a fresh result.
\<close>

definition name_issues :: "json \<Rightarrow> string list" where
  "name_issues name = map check (errors (validate_name demo_plugin name new_result))"

text \<open>
  Two plugin roots: one holds \<^verbatim>\<open>commands\<close> only, the other \<^verbatim>\<open>.claude/commands\<close> only.
\<close>

definition commands_world :: world where
  "commands_world = fixture [Path True [''repo'', ''plugins'', ''demo'', ''commands'']] []"

definition hidden_world :: world where
  "hidden_world = fixture [Path True [''repo'', ''plugins'', ''demo'', ''.claude'', ''commands'']] []"

text \<open>
  What the machine-readable report shows of an issue.
\<close>

definition exposed :: "ValidationIssue \<Rightarrow> string \<times> string \<times> string \<times> int option" where
  "exposed issue = (check issue, message issue, file' issue, line issue)"

text \<open>
  The value found in a document by following a list of keys.
\<close>

fun report_at :: "json \<Rightarrow> string list \<Rightarrow> py_exn + json" where
  "report_at v [] = Inr v"
| "report_at v (k # ks) = (case py_getitem v k of Inl e \<Rightarrow> Inl e | Inr u \<Rightarrow> report_at u ks)"

text \<open>
  The number of subjects whose status satisfies a condition.
\<close>

definition count_where :: "(string \<Rightarrow> bool) \<Rightarrow> (string \<times> ValidationResult) list \<Rightarrow> json" where
  "count_where p results = JInt (int (length (filter (\<lambda>(name, r). p (status r)) results)))"

text \<open>
  Two concrete results: the one of a manifest whose author is a string, and one with a
  warning only.
\<close>

definition bob_result :: ValidationResult where
  "bob_result = validate_author demo_plugin (JString ''Bob'') new_result"

definition warned_result :: ValidationResult where
  "warned_result = add_warning ''license_spdx'' ''m'' ''f'' None new_result"

text \<open>
  The languages of regular expressions, to relate the matcher to the pattern as the
  specification words it.
\<close>

definition alnum :: "char \<Rightarrow> bool" where
  "alnum c = (is_lower c \<or> is_digit c)"

definition segment :: "string \<Rightarrow> bool" where
  "segment t = (t \<noteq> [] \<and> list_all alnum t)"

definition conc :: "string set \<Rightarrow> string set \<Rightarrow> string set" where
  "conc A B = {u @ v | u v. u \<in> A \<and> v \<in> B}"

inductive_set star :: "string set \<Rightarrow> string set" for A :: "string set" where
  star_empty: "[] \<in> star A"
| star_more: "u \<in> A \<Longrightarrow> v \<in> star A \<Longrightarrow> u @ v \<in> star A"

fun lang :: "re \<Rightarrow> string set" where
  "lang Never = {}"
| "lang Empty = {[]}"
| "lang (Cls ranges) = {[c] | c. in_cls c ranges}"
| "lang (Cat r s) = conc (lang r) (lang s)"
| "lang (Or r s) = lang r \<union> lang s"
| "lang (Star r) = star (lang r)"

definition dashed :: "string set" where
  "dashed = {CHR ''-'' # t | t. segment t}"

text \<open>A registry with one entry whose manifest the parser rejects.\<close>

definition demo_registry :: path where
  "demo_registry = Path True [''repo'', ''.claude-plugin'', ''marketplace.json'']"

definition registry_world :: world where
  "registry_world =
     fixture [demo_registry, demo_plugin, demo_manifest]
       [(demo_registry,
           Inr (JObject [(''name'', JString ''market''),
                         (''owner'', JObject [(''name'', JString ''me'')]),
                         (''plugins'', JList [JObject plain_entry])])),
        (demo_manifest, Inl (JSONDecodeError ''Expecting value'' 1
           ''Expecting value: line 1 column 1 (char 0)''))]"

text \<open>
  A plugin whose license is the text \<^verbatim>\<open>[/]\<close>, which the console reads as a closing
  tag. The manifest gets the \<^verbatim>\<open>license_spdx\<close> warning and no other issue. In the line
  that \<^verbatim>\<open>_print_result\<close> prints for this warning, the tag \<^verbatim>\<open>[/]\<close> closes
  \<^verbatim>\<open>[yellow]\<close>, so that \<^verbatim>\<open>[/yellow]\<close> closes nothing: the console of \<^verbatim>\<open>rich\<close>
  raises \<^verbatim>\<open>MarkupError\<close> on that line, and prints the other lines of the run.
\<close>

definition markup_manifest :: json where
  "markup_manifest = JObject [(''name'', JString ''demo''), (''license'', JString ''[/]'')]"

definition markup_line :: string where
  \<open>markup_line =
     ''   [yellow]'' @ icon_warning
       @ ''  Warning: License "[/]" not in common SPDX list. Consider: ''
       @ ''Apache-2.0, BSD-2-Clause, BSD-3-Clause, GPL-3.0, ISC, LGPL-3.0, MIT, MPL-2.0''
       @ ''[/yellow] (/repo/plugins/demo/.claude-plugin/plugin.json)''\<close>

definition markup_error :: py_exn where
  "markup_error =
     MarkupError (''closing tag '' @ [CHR 0x27] @ ''[/yellow]'' @ [CHR 0x27]
                    @ '' at position 152 doesn'' @ [CHR 0x27] @ ''t match any open tag'')"

definition markup_world :: world where
  "markup_world =
     (fixture [demo_plugin, demo_manifest] [(demo_manifest, Inr markup_manifest)])
       \<lparr>console_print := (\<lambda>s. if s = markup_line then Inl markup_error else Inr ())\<rparr>"

definition license_warned :: ValidationResult where
  \<open>license_warned =
     \<lparr>status = ''warning'', errors = [],
      warnings =
        [\<lparr>severity = ''warning'', check = ''license_spdx'',
          message = ''License "[/]" not in common SPDX list. Consider: ''
            @ ''Apache-2.0, BSD-2-Clause, BSD-3-Clause, GPL-3.0, ISC, LGPL-3.0, MIT, MPL-2.0'',
          file' = ''/repo/plugins/demo/.claude-plugin/plugin.json'', line = None\<rparr>],
      info = []\<rparr>\<close>

text \<open>A plugin with a license outside the list and no markup in it.\<close>

definition unlisted_license_world :: world where
  "unlisted_license_world =
     fixture [demo_plugin, demo_manifest]
       [(demo_manifest, Inr (JObject [(''name'', JString ''demo''), (''license'', JString ''MIT-0'')]))]"

text \<open>A registry whose document is the number 5.\<close>

definition scalar_registry_world :: world where
  "scalar_registry_world =
     fixture [demo_registry]
       [(demo_registry, Inr (JInt 5))]"

text \<open>
  A plugin in the directory \<^verbatim>\<open>.hidden/demo\<close> of the registry root, entered in the
  registry with the source \<^verbatim>\<open>./.hidden/demo\<close>: once with a manifest that loads and
  disagrees with the entry, once with a manifest that the parser rejects. Nothing exists
  at \<^verbatim>\<open>hidden/demo\<close>.
\<close>

definition hidden_plugin :: path where
  "hidden_plugin = Path True [''repo'', ''.hidden'', ''demo'']"

definition hidden_manifest :: path where
  "hidden_manifest = Path True [''repo'', ''.hidden'', ''demo'', ''.claude-plugin'', ''plugin.json'']"

definition hidden_entry :: "(string \<times> json) list" where
  "hidden_entry =
     [(''name'', JString ''demo''), (''source'', JString ''./.hidden/demo''),
      (''version'', JString ''2.0.0''), (''author'', JString ''Bob'')]"

definition hidden_source_world :: world where
  "hidden_source_world =
     fixture [hidden_plugin, hidden_manifest] [(hidden_manifest, Inr (JObject mismatched_manifest))]"

definition hidden_plain_entry :: "(string \<times> json) list" where
  "hidden_plain_entry = [(''name'', JString ''demo''), (''source'', JString ''./.hidden/demo'')]"

definition hidden_registry_world :: world where
  "hidden_registry_world =
     fixture [demo_registry, hidden_plugin, hidden_manifest]
       [(demo_registry,
           Inr (JObject [(''name'', JString ''market''),
                         (''owner'', JObject [(''name'', JString ''me'')]),
                         (''plugins'', JList [JObject hidden_plain_entry])])),
        (hidden_manifest, Inl (JSONDecodeError ''Expecting value'' 1
           ''Expecting value: line 1 column 1 (char 0)''))]"

section \<open>Verified properties\<close>

subsection \<open>The status of a result follows its issues\<close>

lemma consistent_new: "status_consistent new_result"
  by (simp add: status_consistent_def status_of_issues_def new_result_def)

lemma consistent_add_error: "status_consistent r \<Longrightarrow> status_consistent (add_error c m f l r)"
  by (simp add: status_consistent_def status_of_issues_def add_error_def Let_def)

lemma consistent_add_warning: "status_consistent r \<Longrightarrow> status_consistent (add_warning c m f l r)"
  by (auto simp add: status_consistent_def status_of_issues_def add_warning_def Let_def split: if_splits)

lemma consistent_add_info: "status_consistent r \<Longrightarrow> status_consistent (add_info c m f r)"
  by (simp add: status_consistent_def status_of_issues_def add_info_def)

lemmas consistent_add = consistent_add_error consistent_add_warning consistent_add_info

lemma consistent_validate_name: "status_consistent r \<Longrightarrow> status_consistent (validate_name p v r)"
  by (simp add: validate_name_def consistent_add split: json.splits)

lemma consistent_validate_version:
  "status_consistent r \<Longrightarrow> status_consistent (validate_version w p v r)"
  by (simp add: validate_version_def consistent_add split: json.splits)

lemma consistent_validate_author: "status_consistent r \<Longrightarrow> status_consistent (validate_author p v r)"
  by (simp add: validate_author_def consistent_add split: json.splits)

lemma consistent_validate_license: "status_consistent r \<Longrightarrow> status_consistent (validate_license p v r)"
  by (simp add: validate_license_def consistent_add split: json.splits)

lemma consistent_validate_repository: "status_consistent r \<Longrightarrow> status_consistent (validate_repository p v r)"
  by (simp add: validate_repository_def consistent_add split: json.splits)

lemma consistent_validate_keywords_loop:
  "status_consistent r \<Longrightarrow> status_consistent (validate_keywords_loop p i xs r)"
  by (induction xs arbitrary: i r) (simp_all add: consistent_add split: json.splits)

lemma consistent_validate_keywords: "status_consistent r \<Longrightarrow> status_consistent (validate_keywords p v r)"
  by (simp add: validate_keywords_def consistent_add consistent_validate_keywords_loop split: json.splits)

lemma consistent_validate_path_value:
  "status_consistent r \<Longrightarrow> status_consistent (validate_path_value w p fld s r)"
  by (simp add: validate_path_value_def Let_def consistent_add)

lemma consistent_validate_paths_loop:
  "status_consistent r \<Longrightarrow> status_consistent (validate_paths_loop w p fld xs r)"
  by (induction xs arbitrary: r) (simp_all add: consistent_validate_path_value split: json.splits)

lemma consistent_validate_paths: "status_consistent r \<Longrightarrow> status_consistent (validate_paths w p fld v r)"
  by (simp add: validate_paths_def consistent_add consistent_validate_paths_loop
      consistent_validate_path_value split: json.splits)

lemma then_exn_Inr: "then_exn m f = Inr y \<longleftrightarrow> (\<exists>x. m = Inr x \<and> f x = Inr y)"
  by (cases m) (simp_all add: then_exn_def)

lemma consistent_when_present:
  assumes "when_present k d chk r = Inr r'" and "status_consistent r"
    and "\<And>v r. status_consistent r \<Longrightarrow> status_consistent (chk v r)"
  shows "status_consistent r'"
  using assms by (auto simp: when_present_def then_exn_Inr split: if_splits)

lemma consistent_validate_path_fields:
  "validate_path_fields w p d flds r = Inr r' \<Longrightarrow> status_consistent r \<Longrightarrow> status_consistent r'"
proof (induction flds arbitrary: r)
  case Nil
  then show ?case by simp
next
  case (Cons fld flds)
  from Cons.prems(1) obtain r1 where
    a: "when_present fld d (validate_paths w p fld) r = Inr r1"
    and b: "validate_path_fields w p d flds r1 = Inr r'"
    by (auto simp: then_exn_Inr)
  from a Cons.prems(2) have "status_consistent r1"
    by (rule consistent_when_present) (rule consistent_validate_paths)
  with b show ?case by (rule Cons.IH)
qed

lemma consistent_validate_fields:
  assumes "validate_fields w p d r = Inr r'" and "status_consistent r"
  shows "status_consistent r'"
proof -
  from assms(1) obtain r1 r2 r3 r4 r5 r6 has_name where
    s0: "(if \<not> has_name
          then Inr (add_error ''required_field'' ''Missing required field: name''
                      (str_path (plugin_json_path p)) None r)
          else then_exn (py_getitem d ''name'') (\<lambda>v. Inr (validate_name p v r))) = Inr r1"
    and s1: "when_present ''version'' d (validate_version w p) r1 = Inr r2"
    and s2: "when_present ''author'' d (validate_author p) r2 = Inr r3"
    and s3: "when_present ''license'' d (validate_license p) r3 = Inr r4"
    and s4: "when_present ''repository'' d (validate_repository p) r4 = Inr r5"
    and s5: "when_present ''keywords'' d (validate_keywords p) r5 = Inr r6"
    and s6: "validate_path_fields w p d [''commands'', ''agents'', ''skills''] r6 = Inr r'"
    unfolding validate_fields_def then_exn_Inr by blast
  from s0 assms(2) have "status_consistent r1"
    by (auto simp: then_exn_Inr consistent_add consistent_validate_name split: if_splits)
  with s1 have "status_consistent r2"
    by (rule consistent_when_present) (rule consistent_validate_version)
  with s2 have "status_consistent r3"
    by (rule consistent_when_present) (rule consistent_validate_author)
  with s3 have "status_consistent r4"
    by (rule consistent_when_present) (rule consistent_validate_license)
  with s4 have "status_consistent r5"
    by (rule consistent_when_present) (rule consistent_validate_repository)
  with s5 have "status_consistent r6"
    by (rule consistent_when_present) (rule consistent_validate_keywords)
  with s6 show ?thesis by (rule consistent_validate_path_fields)
qed

lemma consistent_PluginJsonValidator_validate:
  "PluginJsonValidator_validate w p = Inr r \<Longrightarrow> status_consistent r"
  by (auto simp: PluginJsonValidator_validate_def Let_def consistent_add consistent_new
      split: if_splits sum.splits py_exn.splits dest: consistent_validate_fields)

lemma run_steps_preserves:
  assumes "run_steps fs s = (e, s')" and "P s"
    and "\<And>f a b. f \<in> set fs \<Longrightarrow> f a = Inr b \<Longrightarrow> P a \<Longrightarrow> P b"
  shows "P s'"
  using assms
proof (induction fs arbitrary: s)
  case Nil
  then show ?case by simp
next
  case (Cons f fs)
  show ?case
  proof (cases "f s")
    case (Inl x)
    with Cons.prems show ?thesis by simp
  next
    case (Inr s1)
    with Cons.prems(1) have "run_steps fs s1 = (e, s')" by simp
    moreover from Inr Cons.prems(2,3) have "P s1" by (meson list.set_intros(1))
    ultimately show ?thesis
      using Cons.IH Cons.prems(3) by (meson list.set_intros(2))
  qed
qed


lemma on_return_simps [simp]: "on_return P (Inl e)" "on_return P (Inr x) = P x"
  by (simp_all add: on_return_def)

lemma on_return_then: "on_return P (then_exn m f) = on_return (\<lambda>x. on_return P (f x)) m"
  by (cases m) (simp_all add: then_exn_def)

lemma on_returnI: "(\<And>x. m = Inr x \<Longrightarrow> P x) \<Longrightarrow> on_return P m"
  by (cases m) simp_all

lemma on_returnD: "on_return P m \<Longrightarrow> m = Inr x \<Longrightarrow> P x"
  by simp

lemma consistent_check_name_matches:
  "status_consistent r \<Longrightarrow> on_return status_consistent (check_name_matches w mroot name pd r)"
  by (auto simp: check_name_matches_def on_return_then consistent_add intro!: on_returnI)

lemma consistent_check_version_matches:
  "status_consistent r
     \<Longrightarrow> on_return status_consistent (check_version_matches w mroot entry name pd r)"
  by (auto simp: check_version_matches_def on_return_then consistent_add intro!: on_returnI)

lemma consistent_check_author_format:
  "status_consistent r \<Longrightarrow> on_return status_consistent (check_author_format w mroot entry name r)"
  by (auto simp: check_author_format_def on_return_then consistent_add intro!: on_returnI
      split: json.split)

lemma consistent_check_consistency:
  assumes "status_consistent r"
  shows "status_consistent (check_consistency w mroot entry name mp r)"
proof (cases "json_load w mp")
  case (Inl e)
  with assms show ?thesis by (simp add: check_consistency_def consistent_add)
next
  case (Inr pd)
  obtain raised r1 where rs:
    "run_steps [check_name_matches w mroot name pd, check_version_matches w mroot entry name pd,
                check_author_format w mroot entry name] r = (raised, r1)"
    by (cases "run_steps [check_name_matches w mroot name pd,
          check_version_matches w mroot entry name pd, check_author_format w mroot entry name] r")
  from rs assms have "status_consistent r1"
  proof (rule run_steps_preserves)
    fix f a b
    assume "f \<in> set [check_name_matches w mroot name pd,
        check_version_matches w mroot entry name pd, check_author_format w mroot entry name]"
      and "f a = Inr b" and "status_consistent a"
    then show "status_consistent b"
      using consistent_check_name_matches [of a w mroot name pd]
        consistent_check_version_matches [of a w mroot entry name pd]
        consistent_check_author_format [of a w mroot entry name]
      by auto
  qed
  with Inr rs show ?thesis
    by (simp add: check_consistency_def consistent_add split: option.split)
qed

lemma consistent_check_source:
  "status_consistent r \<Longrightarrow> status_consistent (check_source w mroot entry name src r)"
  by (simp add: check_source_def Let_def consistent_add consistent_check_consistency
      split: json.split)

lemma consistent_validate_plugin_entry:
  "status_consistent r
     \<Longrightarrow> on_return (\<lambda>(r', names'). status_consistent r')
           (validate_plugin_entry w mroot entry i names r)"
  by (auto simp: validate_plugin_entry_def on_return_then Let_def consistent_add
      consistent_check_source intro!: on_returnI)

lemma consistent_validate_entries:
  "status_consistent r
     \<Longrightarrow> on_return (\<lambda>(r', names'). status_consistent r') (validate_entries w mroot i es names r)"
proof (induction es arbitrary: i names r)
  case Nil
  then show ?case by simp
next
  case (Cons e es)
  show ?case
  proof (cases "validate_plugin_entry w mroot e i names r")
    case (Inl x)
    then show ?thesis by simp
  next
    case (Inr res)
    obtain r1 names1 where res: "res = (r1, names1)" by (cases res)
    from consistent_validate_plugin_entry [OF Cons.prems, of w mroot e i names] Inr res
    have "status_consistent r1" by simp
    then have "on_return (\<lambda>(r', names'). status_consistent r')
        (validate_entries w mroot (Suc i) es names1 r1)"
      by (rule Cons.IH)
    with Inr res show ?thesis by simp
  qed
qed

lemma consistent_check_required_fields:
  "status_consistent r \<Longrightarrow> on_return status_consistent (check_required_fields mroot d flds r)"
proof (induction flds arbitrary: r)
  case Nil
  then show ?case by simp
next
  case (Cons fld flds)
  show ?case
  proof (cases "py_contains fld d")
    case (Inl x)
    then show ?thesis by simp
  next
    case (Inr present)
    with Cons.prems show ?thesis
      by (simp add: Cons.IH consistent_add)
  qed
qed

lemma consistent_check_owner:
  "status_consistent r \<Longrightarrow> on_return status_consistent (check_owner mroot d r)"
  by (auto simp: check_owner_def on_return_then consistent_add intro!: on_returnI
      split: json.split)

lemma consistent_check_plugins:
  assumes "status_consistent r"
  shows "on_return status_consistent (check_plugins w mroot d r)"
proof -
  have "on_return status_consistent
      (then_exn (validate_entries w mroot 0 es [] r) (\<lambda>(r, names). Inr r))" for es
    using consistent_validate_entries [OF assms, of w mroot 0 es "[]"]
    by (cases "validate_entries w mroot 0 es [] r") (auto simp: then_exn_def)
  with assms show ?thesis
    by (auto simp: check_plugins_def on_return_then consistent_add intro!: on_returnI
        split: json.split)
qed

lemma consistent_MarketplaceValidator_validate:
  "on_return status_consistent (MarketplaceValidator_validate w mroot)"
proof (cases "path_exists w (marketplace_json mroot)")
  case False
  then show ?thesis
    by (simp add: MarketplaceValidator_validate_def Let_def consistent_add consistent_new)
next
  case True
  show ?thesis
  proof (cases "json_load w (marketplace_json mroot)")
    case (Inl e)
    with True show ?thesis
      by (cases e)
        (simp_all add: MarketplaceValidator_validate_def Let_def consistent_add consistent_new)
  next
    case (Inr d)
    have "on_return status_consistent
        (then_exn (check_required_fields mroot d [''name'', ''owner'', ''plugins''] new_result)
           (\<lambda>r1. then_exn (check_owner mroot d r1) (check_plugins w mroot d)))"
      unfolding on_return_then
    proof (rule on_returnI)
      fix r1
      assume "check_required_fields mroot d [''name'', ''owner'', ''plugins''] new_result = Inr r1"
      with consistent_check_required_fields [OF consistent_new, of mroot d "[''name'', ''owner'', ''plugins'']"]
      have c1: "status_consistent r1" by simp
      show "on_return (\<lambda>x. on_return status_consistent (check_plugins w mroot d x))
          (check_owner mroot d r1)"
      proof (rule on_returnI)
        fix r2
        assume "check_owner mroot d r1 = Inr r2"
        with consistent_check_owner [OF c1, of mroot d] have "status_consistent r2" by simp
        then show "on_return status_consistent (check_plugins w mroot d r2)"
          by (rule consistent_check_plugins)
      qed
    qed
    with True Inr show ?thesis
      by (simp add: MarketplaceValidator_validate_def Let_def)
  qed
qed

lemma consistent_validate_skill: "status_consistent (validate_skill w p)"
  by (simp add: validate_skill_def Let_def consistent_add consistent_new
      split: sum.split py_exn.split)

text \<open>
  Claim C1. Every result that a validator returns has the status its issues call for:
  failed exactly when it holds an error issue, otherwise warning exactly when it holds a
  warning issue, otherwise passed. Each of the three operations keeps this, whatever
  result it is applied to. \<^verbatim>\<open>add_error\<close> always leaves the status failed;
  \<^verbatim>\<open>add_warning\<close> turns passed into warning and leaves any other status (so failed)
  as it is; \<^verbatim>\<open>add_info\<close> leaves the status as it is. Hence no operation takes a
  result out of failed.
\<close>

theorem result_status_invariant:
  "(produced_by_validator w p r \<longrightarrow>
      status r = status_of_issues r
      \<and> (status r = ''failed'') = (errors r \<noteq> [])
      \<and> (status r = ''warning'') = (errors r = [] \<and> warnings r \<noteq> [])
      \<and> (status r = ''passed'') = (errors r = [] \<and> warnings r = []))
   \<and> (status r0 = status_of_issues r0 \<longrightarrow>
        status (add_error c m f l r0) = status_of_issues (add_error c m f l r0)
        \<and> status (add_warning c m f l r0) = status_of_issues (add_warning c m f l r0)
        \<and> status (add_info c m f r0) = status_of_issues (add_info c m f r0))
   \<and> status (add_error c m f l r0) = ''failed''
   \<and> status (add_warning c m f l r0) = (if status r0 = ''passed'' then ''warning'' else status r0)
   \<and> status (add_info c m f r0) = status r0"
proof -
  have produced: "status_consistent r" if "produced_by_validator w p r"
    using that consistent_PluginJsonValidator_validate [of w p r]
      consistent_MarketplaceValidator_validate [of w p] consistent_validate_skill [of w p]
    by (auto simp: produced_by_validator_def)
  have explicit: "status r = status_of_issues r
      \<and> (status r = ''failed'') = (errors r \<noteq> [])
      \<and> (status r = ''warning'') = (errors r = [] \<and> warnings r \<noteq> [])
      \<and> (status r = ''passed'') = (errors r = [] \<and> warnings r = [])"
    if "status_consistent r"
    using that by (simp add: status_consistent_def status_of_issues_def)
  have kept: "status (add_error c m f l r0) = status_of_issues (add_error c m f l r0)
      \<and> status (add_warning c m f l r0) = status_of_issues (add_warning c m f l r0)
      \<and> status (add_info c m f r0) = status_of_issues (add_info c m f r0)"
    if "status r0 = status_of_issues r0"
    using that consistent_add_error [of r0 c m f l] consistent_add_warning [of r0 c m f l]
      consistent_add_info [of r0 c m f]
    by (simp add: status_consistent_def)
  have forced: "status (add_error c m f l r0) = ''failed''"
    by (simp add: add_error_def Let_def)
  have upgraded:
    "status (add_warning c m f l r0) = (if status r0 = ''passed'' then ''warning'' else status r0)"
    by (simp add: add_warning_def Let_def)
  have unchanged: "status (add_info c m f r0) = status r0"
    by (simp add: add_info_def)
  from produced explicit kept forced upgraded unchanged show ?thesis by blast
qed

theorem result_status_invariant_witness:
  "produced_by_validator (fixture [] []) (Path True [''repo''])
     (add_error ''file_exists'' ''plugin.json not found''
        ''/repo/.claude-plugin/plugin.json'' None new_result)
   \<and> status new_result = status_of_issues new_result
   \<and> status (add_error ''file_exists'' ''plugin.json not found''
        ''/repo/.claude-plugin/plugin.json'' None new_result) = ''failed''
   \<and> errors (add_error ''file_exists'' ''plugin.json not found''
        ''/repo/.claude-plugin/plugin.json'' None new_result) \<noteq> []
   \<and> status (add_warning ''license_spdx'' ''x'' ''y'' None new_result) = ''warning''
   \<and> status (add_warning ''license_spdx'' ''x'' ''y'' None new_result)
       = status_of_issues (add_warning ''license_spdx'' ''x'' ''y'' None new_result)"
proof -
  have p: "produced_by_validator (fixture [] []) (Path True [''repo''])
     (add_error ''file_exists'' ''plugin.json not found''
        ''/repo/.claude-plugin/plugin.json'' None new_result)"
    by (simp add: produced_by_validator_def PluginJsonValidator_validate_def fixture_def
        plugin_json_path_def startswith_def path_parts_def)
  have q: "status new_result = status_of_issues new_result"
    by (simp add: new_result_def status_of_issues_def)
  from p q result_status_invariant [of "fixture [] []" "Path True [''repo'']"
      "add_error ''file_exists'' ''plugin.json not found''
         ''/repo/.claude-plugin/plugin.json'' None new_result"
      new_result "''license_spdx''" "''x''" "''y''" None]
  show ?thesis
    by (simp add: new_result_def add_error_def add_warning_def status_of_issues_def Let_def)
qed

subsection \<open>A missing or malformed manifest\<close>

lemma add_error_new: "add_error c m f l new_result = single_error c m f l"
  by (simp add: add_error_def new_result_def single_error_def)

lemma demo_manifest_path: "plugin_json_path demo_plugin = demo_manifest"
  by (simp add: plugin_json_path_def demo_plugin_def demo_manifest_def startswith_def
      path_parts_def)

text \<open>
  Claim C7. When the manifest document of a plugin root is missing, validation returns
  the result whose only issue is a \<^verbatim>\<open>file_exists\<close> error. When the document exists
  and the JSON parser rejects it, validation returns the result whose only issue is a
  \<^verbatim>\<open>json_syntax\<close> error carrying the parser's line number. In both cases the result
  holds nothing else, so no check of a field has run.
\<close>

theorem manifest_missing_or_malformed:
  "(\<not> path_exists w (plugin_json_path plugin_path) \<longrightarrow>
      PluginJsonValidator_validate w plugin_path =
        Inr (single_error ''file_exists'' ''plugin.json not found''
               (str_path (plugin_json_path plugin_path)) None))
   \<and> (path_exists w (plugin_json_path plugin_path)
        \<and> json_load w (plugin_json_path plugin_path) = Inl (JSONDecodeError msg lineno txt) \<longrightarrow>
      PluginJsonValidator_validate w plugin_path =
        Inr (single_error ''json_syntax'' (''Invalid JSON: '' @ msg)
               (str_path (plugin_json_path plugin_path)) (Some lineno)))"
  by (simp add: PluginJsonValidator_validate_def add_error_new)

theorem manifest_missing_or_malformed_witness:
  "\<not> path_exists (fixture [] []) (plugin_json_path demo_plugin)
   \<and> PluginJsonValidator_validate (fixture [] []) demo_plugin =
       Inr (single_error ''file_exists'' ''plugin.json not found''
              ''/repo/plugins/demo/.claude-plugin/plugin.json'' None)
   \<and> path_exists
        (fixture [demo_manifest]
           [(demo_manifest, Inl (JSONDecodeError ''Expecting value'' 3
               ''Expecting value: line 3 column 1 (char 4)''))])
        (plugin_json_path demo_plugin)
   \<and> PluginJsonValidator_validate
        (fixture [demo_manifest]
           [(demo_manifest, Inl (JSONDecodeError ''Expecting value'' 3
               ''Expecting value: line 3 column 1 (char 4)''))])
        demo_plugin =
       Inr (single_error ''json_syntax'' ''Invalid JSON: Expecting value''
              ''/repo/plugins/demo/.claude-plugin/plugin.json'' (Some 3))"
proof -
  let ?w = "fixture [demo_manifest]
           [(demo_manifest, Inl (JSONDecodeError ''Expecting value'' 3
               ''Expecting value: line 3 column 1 (char 4)''))]"
  have a: "\<not> path_exists (fixture [] []) (plugin_json_path demo_plugin)"
    by (simp add: fixture_def)
  have b: "path_exists ?w (plugin_json_path demo_plugin)
      \<and> json_load ?w (plugin_json_path demo_plugin) = Inl (JSONDecodeError ''Expecting value'' 3
               ''Expecting value: line 3 column 1 (char 4)'')"
    by (simp add: fixture_def demo_manifest_path)
  have s: "str_path (plugin_json_path demo_plugin) = ''/repo/plugins/demo/.claude-plugin/plugin.json''"
    by (simp add: demo_manifest_path demo_manifest_def)
  from a b s
    manifest_missing_or_malformed [of "fixture [] []" demo_plugin]
    manifest_missing_or_malformed [of ?w demo_plugin "''Expecting value''" 3
      "''Expecting value: line 3 column 1 (char 4)''"]
  show ?thesis by simp
qed

subsection \<open>The exit status\<close>

lemma has_errors_iff:
  "has_errors rr mr prs srs =
     ((\<exists>r. rr = Some r \<and> status r = ''failed'') \<or> (\<exists>r. mr = Some r \<and> status r = ''failed'')
      \<or> (\<exists>name r. (name, r) \<in> set prs \<and> status r = ''failed'')
      \<or> (\<exists>name r. (name, r) \<in> set srs \<and> status r = ''failed''))"
  by (cases rr; cases mr) (force simp: has_errors_def list_ex_iff)+

lemma main_exit:
  assumes "main w plugin skip_skills output verbose no_color = Inr rn"
  shows "run_exit rn = exit_code (run_root rn) (run_marketplace rn) (run_plugins rn) (run_skills rn)"
  using assms
  by (auto simp: main_def Let_def then_exn_Inr)

text \<open>
  The exit status of the process, by cases: 2 when \<^verbatim>\<open>click\<close> refuses the options; 1
  when an exception ends the run before \<^verbatim>\<open>sys.exit\<close>; and when the run reaches
  \<^verbatim>\<open>sys.exit\<close>, 1 when some result it collected (the root manifest's, the
  registry's, a plugin's or a unit's) has status failed and 0 otherwise.
\<close>

lemma exit_status_at_sys_exit:
  assumes "click_accepts w plugin output"
    and "main w plugin skip_skills output verbose no_color = Inr rn"
  shows "command_exit_status w plugin skip_skills output verbose no_color =
           (if any_failed rn then 1 else 0)"
  using assms
  by (simp add: command_exit_status_def main_exit exit_code_def has_errors_iff any_failed_def)

lemma exit_status_of_refused_options:
  "\<not> click_accepts w plugin output
     \<Longrightarrow> command_exit_status w plugin skip_skills output verbose no_color = 2"
  by (simp add: command_exit_status_def)

lemma exit_status_of_unhandled_exception:
  "click_accepts w plugin output
     \<Longrightarrow> main w plugin skip_skills output verbose no_color = Inl e
     \<Longrightarrow> command_exit_status w plugin skip_skills output verbose no_color = 1"
  by (simp add: command_exit_status_def)

lemma demo_plugin_parts:
  "path_name (path_parent demo_plugin) = ''plugins''"
  "path_parent (path_parent demo_plugin) = demo_root"
  "path_name demo_plugin = ''demo''"
  by (simp_all add: demo_plugin_def demo_root_def)

lemma demo_root_files:
  "truediv (truediv demo_root ''.claude-plugin'') ''plugin.json'' =
     Path True [''repo'', ''.claude-plugin'', ''plugin.json'']"
  "truediv (truediv demo_root ''.claude-plugin'') ''marketplace.json'' = demo_registry"
  by (simp_all add: demo_root_def demo_registry_def startswith_def path_parts_def)

lemma demo_name_accepted: "re_match PLUGIN_NAME_PATTERN ''demo''"
  by (simp add: re_match_def re_fullmatch_def PLUGIN_NAME_PATTERN_def in_cls_def nl_def)

lemma missing_manifest_result:
  "PluginJsonValidator_validate (fixture [demo_plugin] []) demo_plugin =
       Inr (single_error ''file_exists'' ''plugin.json not found''
              ''/repo/plugins/demo/.claude-plugin/plugin.json'' None)"
  by (simp add: PluginJsonValidator_validate_def add_error_new demo_manifest_path)
     (simp add: demo_manifest_def fixture_def demo_plugin_def)

lemma quiet_console_print_all:
  "(\<And>s. console_print w s = Inr ()) \<Longrightarrow> console_print_all w xs = Inr ()"
  by (induction xs) simp_all

lemma quiet_print_result:
  "(\<And>s. console_print w s = Inr ()) \<Longrightarrow> print_result w title r = Inr ()"
  by (simp add: print_result_def then_exn_def quiet_console_print_all)

lemma quiet_print_plugin_results:
  "(\<And>s. console_print w s = Inr ()) \<Longrightarrow> print_plugin_results w prs = Inr ()"
  by (induction prs) (auto simp: quiet_print_result)

lemma quiet_print_text_results:
  assumes "\<And>s. console_print w s = Inr ()"
  shows "print_text_results w rr mr prs srs = Inr ()"
  by (cases rr; cases mr)
     (simp_all add: print_text_results_def then_exn_def assms quiet_print_result [OF assms]
        quiet_print_plugin_results [OF assms] quiet_console_print_all [OF assms])

lemma fixture_console: "console_print (fixture present docs) s = Inr ()"
  by (simp add: fixture_def)

lemma unlisted_result:
  "\<exists>r. PluginJsonValidator_validate unlisted_license_world demo_plugin = Inr r
     \<and> status r = ''warning''"
  by (simp add: PluginJsonValidator_validate_def demo_manifest_path unlisted_license_world_def fixture_def
      validate_fields_def then_exn_def when_present_def validate_name_def
      validate_license_def SPDX_LICENSES_def add_warning_def new_result_def
      Let_def demo_name_accepted)

lemma unlisted_console: "console_print unlisted_license_world s = Inr ()"
  by (simp add: unlisted_license_world_def fixture_def)

lemma unlisted_paths:
  "\<not> path_exists unlisted_license_world (Path True [''repo'', ''.claude-plugin'', ''plugin.json''])"
  "\<not> path_exists unlisted_license_world demo_registry"
  "\<not> path_exists unlisted_license_world (truediv demo_plugin ''skills'')"
  by (simp_all add: unlisted_license_world_def fixture_def demo_plugin_def demo_manifest_def
      demo_registry_def startswith_def path_parts_def)

text \<open>
  Three runs on one plugin, in the text format: the manifest is missing (a failed
  result, status 1); the manifest has a license outside the list (a warning only,
  status 0); the directory of the plugin does not exist (refused, status 2).
\<close>

lemma exit_status_examples:
  "command_exit_status (fixture [demo_plugin] []) (Some demo_plugin) False ''text'' False False = 1
   \<and> command_exit_status unlisted_license_world (Some demo_plugin) False ''text'' False False = 0
   \<and> command_exit_status (fixture [] []) (Some demo_plugin) False ''text'' False False = 2"
proof -
  have a: "main (fixture [demo_plugin] []) (Some demo_plugin) False ''text'' False False =
      Inr \<lparr>run_root = None, run_marketplace = None,
           run_plugins = [(''demo'', single_error ''file_exists'' ''plugin.json not found''
                             ''/repo/plugins/demo/.claude-plugin/plugin.json'' None)],
           run_skills = [], run_printed = None, run_exit = 1\<rparr>"
    apply (simp add: main_def demo_plugin_parts demo_root_files then_exn_def
        plugins_to_validate_def missing_manifest_result discover_skills_def exit_code_def
        has_errors_def quiet_print_text_results [OF fixture_console])
    apply (simp add: fixture_def demo_plugin_def demo_registry_def startswith_def path_parts_def
        single_error_def)
    done
  obtain r where r: "PluginJsonValidator_validate unlisted_license_world demo_plugin = Inr r"
    "status r = ''warning''"
    using unlisted_result by blast
  have b: "main unlisted_license_world (Some demo_plugin) False ''text'' False False =
      Inr \<lparr>run_root = None, run_marketplace = None, run_plugins = [(''demo'', r)],
           run_skills = [], run_printed = None, run_exit = 0\<rparr>"
    using r(2)
    by (simp add: main_def demo_plugin_parts demo_root_files then_exn_def
        plugins_to_validate_def r(1) discover_skills_def exit_code_def has_errors_def
        quiet_print_text_results [OF unlisted_console] unlisted_paths)
  show ?thesis
    by (simp add: command_exit_status_def click_accepts_def a b)
       (simp add: fixture_def unlisted_license_world_def)
qed

text \<open>
  The runs on the plugin whose license is \<^verbatim>\<open>[/]\<close>, and on the registry whose document
  is a number.
\<close>

lemma markup_result:
  "PluginJsonValidator_validate markup_world demo_plugin = Inr license_warned"
  by (simp add: PluginJsonValidator_validate_def demo_manifest_path markup_world_def fixture_def
      markup_manifest_def validate_fields_def then_exn_def when_present_def validate_name_def
      validate_license_def SPDX_LICENSES_def add_warning_def new_result_def license_warned_def
      Let_def demo_name_accepted)
     (simp add: demo_manifest_def)

lemma markup_world_paths:
  "path_exists markup_world demo_plugin"
  "\<not> path_exists markup_world (Path True [''repo'', ''.claude-plugin'', ''plugin.json''])"
  "\<not> path_exists markup_world demo_registry"
  "\<not> path_exists markup_world (truediv demo_plugin ''skills'')"
  by (simp_all add: markup_world_def fixture_def demo_plugin_def demo_manifest_def demo_registry_def
      startswith_def path_parts_def)

lemma markup_json_run:
  "main markup_world (Some demo_plugin) False ''json'' False False =
     Inr \<lparr>run_root = None, run_marketplace = None,
          run_plugins = [(''demo'', license_warned)], run_skills = [],
          run_printed = Some (print_json_results None None [(''demo'', license_warned)] []),
          run_exit = 0\<rparr>"
  by (simp add: main_def demo_plugin_parts demo_root_files markup_world_paths then_exn_def
      plugins_to_validate_def markup_result discover_skills_def exit_code_def has_errors_def
      license_warned_def)

lemma markup_text_run:
  "main markup_world (Some demo_plugin) False ''text'' False False = Inl markup_error"
  apply (simp add: main_def demo_plugin_parts demo_root_files markup_world_paths then_exn_def
      plugins_to_validate_def markup_result discover_skills_def)
  apply (simp add: print_text_results_def then_exn_def print_result_def license_warned_def
      location_def)
  apply (simp add: markup_world_def markup_line_def nl_def)
  done

lemma scalar_registry_run:
  "main scalar_registry_world None False output False False =
     Inl (TypeError (''argument of type '' @ [CHR 0x27] @ ''int'' @ [CHR 0x27] @ '' is not iterable''))"
  by (simp add: main_def scalar_registry_world_def fixture_def then_exn_def
      demo_root_files [unfolded demo_root_def] demo_registry_def
      MarketplaceValidator_validate_def marketplace_json_def startswith_def path_parts_def)

text \<open>
  Claim C2. The exit status does not follow the results on every run. The plugin of
  \<open>markup_world\<close> has a manifest whose only issue is the \<^verbatim>\<open>license_spdx\<close> warning.
  With the output format \<^verbatim>\<open>json\<close> the run collects this one result, of status
  warning, and exits with status 0. With the format \<^verbatim>\<open>text\<close> the same run ends in
  \<^verbatim>\<open>_print_result\<close> with the \<^verbatim>\<open>MarkupError\<close> of the console, before \<^verbatim>\<open>sys.exit\<close>:
  the process exits with status 1 although no result has status failed. A registry whose
  document is the number 5 ends the run with a \<^verbatim>\<open>TypeError\<close> in the registry
  validator: status 1 again, and no result at all.
\<close>

theorem exit_status_without_failed_result:
  "click_accepts markup_world (Some demo_plugin) ''json''
   \<and> main markup_world (Some demo_plugin) False ''json'' False False =
       Inr \<lparr>run_root = None, run_marketplace = None,
            run_plugins = [(''demo'', license_warned)], run_skills = [],
            run_printed = Some (print_json_results None None [(''demo'', license_warned)] []),
            run_exit = 0\<rparr>
   \<and> status license_warned = ''warning''
   \<and> command_exit_status markup_world (Some demo_plugin) False ''json'' False False = 0
   \<and> click_accepts markup_world (Some demo_plugin) ''text''
   \<and> main markup_world (Some demo_plugin) False ''text'' False False = Inl markup_error
   \<and> command_exit_status markup_world (Some demo_plugin) False ''text'' False False = 1
   \<and> click_accepts scalar_registry_world None ''json''
   \<and> main scalar_registry_world None False ''json'' False False =
       Inl (TypeError (''argument of type '' @ [CHR 0x27] @ ''int'' @ [CHR 0x27] @ '' is not iterable''))
   \<and> command_exit_status scalar_registry_world None False ''json'' False False = 1"
  by (simp add: command_exit_status_def click_accepts_def markup_json_run markup_text_run
      scalar_registry_run markup_world_paths)
     (simp add: license_warned_def)

subsection \<open>The outcomes of the inspector\<close>

text \<open>
  Claim C8. For a unit whose marker file is present: exit status 0 of the inspector
  leaves the fresh result (passed, no issue); a non-zero exit status gives the single
  error \<^verbatim>\<open>skills_ref_validation\<close> whose message holds the captured standard output
  and standard error; a timeout gives the single error \<^verbatim>\<open>skills_ref_timeout\<close>; a
  missing executable gives the single error \<^verbatim>\<open>skills_ref_missing\<close> with the
  installation command; any other exception gives the single error
  \<^verbatim>\<open>skills_ref_error\<close> with the text of the exception.
\<close>

theorem inspector_outcomes:
  assumes "path_exists w (truediv skill_path ''SKILL.md'')"
  shows
    "(subprocess_run w (skills_ref_cmd skill_path) = Inr proc \<and> returncode proc = 0 \<longrightarrow>
        validate_skill w skill_path = new_result)
     \<and> (subprocess_run w (skills_ref_cmd skill_path) = Inr proc \<and> returncode proc \<noteq> 0 \<longrightarrow>
        validate_skill w skill_path =
          single_error ''skills_ref_validation''
            (''skills-ref validation failed:'' @ nl @ stdout proc @ nl @ stderr proc)
            (str_path skill_path) None)
     \<and> (subprocess_run w (skills_ref_cmd skill_path) = Inl (TimeoutExpired detail) \<longrightarrow>
        validate_skill w skill_path =
          single_error ''skills_ref_timeout'' ''skills-ref validation timed out (30s)''
            (str_path skill_path) None)
     \<and> (subprocess_run w (skills_ref_cmd skill_path) = Inl (FileNotFoundError detail) \<longrightarrow>
        validate_skill w skill_path =
          single_error ''skills_ref_missing''
            ''uvx not found. Install with: curl -LsSf https://astral.sh/uv/install.sh | sh''
            (str_path skill_path) None)
     \<and> (subprocess_run w (skills_ref_cmd skill_path) = Inl e
        \<and> (\<forall>t. e \<noteq> TimeoutExpired t) \<and> (\<forall>t. e \<noteq> FileNotFoundError t) \<longrightarrow>
        validate_skill w skill_path =
          single_error ''skills_ref_error'' (''Failed to run skills-ref: '' @ exn_str e)
            (str_path skill_path) None)"
  using assms
  by (cases e) (simp_all add: validate_skill_def add_error_new)

theorem inspector_outcomes_witness:
  "path_exists (inspector_world (Inr \<lparr>returncode = 0, stdout = ''ok'', stderr = []\<rparr>))
     (truediv demo_skill ''SKILL.md'')
   \<and> validate_skill (inspector_world (Inr \<lparr>returncode = 0, stdout = ''ok'', stderr = []\<rparr>))
       demo_skill = new_result
   \<and> validate_skill (inspector_world (Inr \<lparr>returncode = 2, stdout = ''out'', stderr = ''err''\<rparr>))
       demo_skill =
       single_error ''skills_ref_validation''
         (''skills-ref validation failed:'' @ nl @ ''out'' @ nl @ ''err'')
         ''/repo/plugins/demo/skills/review'' None
   \<and> validate_skill (inspector_world (Inl (TimeoutExpired ''timed out''))) demo_skill =
       single_error ''skills_ref_timeout'' ''skills-ref validation timed out (30s)''
         ''/repo/plugins/demo/skills/review'' None
   \<and> validate_skill (inspector_world (Inl (FileNotFoundError ''uvx''))) demo_skill =
       single_error ''skills_ref_missing''
         ''uvx not found. Install with: curl -LsSf https://astral.sh/uv/install.sh | sh''
         ''/repo/plugins/demo/skills/review'' None
   \<and> validate_skill (inspector_world (Inl (OtherException ''Permission denied''))) demo_skill =
       single_error ''skills_ref_error'' ''Failed to run skills-ref: Permission denied''
         ''/repo/plugins/demo/skills/review'' None"
proof -
  have md: "path_exists (inspector_world outcome) (truediv demo_skill ''SKILL.md'')" for outcome
    by (simp add: inspector_world_def fixture_def demo_skill_def startswith_def path_parts_def)
  have run: "subprocess_run (inspector_world outcome) cmd = outcome" for outcome cmd
    by (simp add: inspector_world_def)
  have s: "str_path demo_skill = ''/repo/plugins/demo/skills/review''"
    by (simp add: demo_skill_def)
  note c0 = inspector_outcomes [where w = "inspector_world (Inr \<lparr>returncode = 0, stdout = ''ok'', stderr = []\<rparr>)"
      and skill_path = demo_skill and proc = "\<lparr>returncode = 0, stdout = ''ok'', stderr = []\<rparr>"]
  note c1 = inspector_outcomes [where w = "inspector_world (Inr \<lparr>returncode = 2, stdout = ''out'', stderr = ''err''\<rparr>)"
      and skill_path = demo_skill and proc = "\<lparr>returncode = 2, stdout = ''out'', stderr = ''err''\<rparr>"]
  note c2 = inspector_outcomes [where w = "inspector_world (Inl (TimeoutExpired ''timed out''))"
      and skill_path = demo_skill and detail = "''timed out''"]
  note c3 = inspector_outcomes [where w = "inspector_world (Inl (FileNotFoundError ''uvx''))"
      and skill_path = demo_skill and detail = "''uvx''"]
  note c4 = inspector_outcomes [where w = "inspector_world (Inl (OtherException ''Permission denied''))"
      and skill_path = demo_skill and e = "OtherException ''Permission denied''"]
  from md run s c0 c1 c2 c3 c4
  show ?thesis by simp
qed

subsection \<open>Registry entries\<close>

lemma contains_object: "py_contains k (JObject items) = Inr (map_of items k \<noteq> None)"
  by (simp add: map_of_eq_None_iff)

lemma getitem_object: "map_of items k = Some v \<Longrightarrow> py_getitem (JObject items) k = Inr v"
  by simp

lemma set_contains_hashable: "hashable v \<Longrightarrow> set_contains v names = Inr (seen_before v names)"
  by (simp add: set_contains_def seen_before_def)

lemma entry_with_source:
  assumes "map_of items ''name'' = Some name" and "hashable name"
    and "map_of items ''source'' = Some source"
  shows "validate_plugin_entry w mroot (JObject items) i names r =
     Inr (check_source w mroot (JObject items) name source
            (if seen_before name names
             then add_error ''duplicate_plugin''
                    (''Duplicate plugin name: '' @ [CHR 0x22] @ py_str w name @ [CHR 0x22])
                    (str_path (marketplace_json mroot)) None r
             else r),
          set_add name names)"
  using assms
  by (simp add: validate_plugin_entry_def contains_object then_exn_def set_contains_hashable
      Let_def del: py_contains.simps)

lemma check_source_reaches_manifest:
  assumes "path_exists w (truediv mroot (lstrip source ''./''))"
    and "path_exists w (entry_manifest_path mroot source)"
  shows "check_source w mroot entry name (JString source) r =
     check_consistency w mroot entry name (entry_manifest_path mroot source) r"
  using assms by (simp add: check_source_def entry_manifest_path_def Let_def)

lemma check_consistency_unreadable:
  assumes "json_load w mp = Inl e \<or> (\<exists>d. json_load w mp = Inr d \<and> py_get d ''name'' = Inl e)"
  shows "check_consistency w mroot entry name mp r =
     add_warning ''plugin_json_read''
       (''Could not read plugin.json for '' @ [CHR 0x22] @ py_str w name @ [CHR 0x22] @ '': ''
          @ exn_str e)
       (str_path (marketplace_json mroot)) None r"
  using assms
  by (auto simp: check_consistency_def check_name_matches_def then_exn_def)

lemma check_consistency_object:
  assumes "json_load w mp = Inr (JObject manifest)"
  shows "check_consistency w mroot (JObject items) name mp r =
     (let r1 = (if names_differ name manifest
                then add_error ''name_mismatch''
                   (''Plugin name mismatch: marketplace says '' @ [CHR 0x22] @ py_str w name
                      @ [CHR 0x22] @ '', plugin.json says '' @ [CHR 0x22]
                      @ py_str w (dict_get manifest ''name'') @ [CHR 0x22])
                   (str_path (marketplace_json mroot)) None r
                else r);
          r2 = (if versions_differ items manifest
                then add_error ''version_mismatch''
                   (''Plugin '' @ [CHR 0x22] @ py_str w name @ [CHR 0x22]
                      @ '' version mismatch: marketplace=''
                      @ py_str w (dict_get items ''version'') @ '', plugin.json=''
                      @ py_str w (dict_get manifest ''version''))
                   (str_path (marketplace_json mroot)) None r1
                else r1)
      in if author_is_string items
         then add_error ''author_format_marketplace''
                (''Plugin '' @ [CHR 0x22] @ py_str w name @ [CHR 0x22]
                   @ '' author in marketplace.json must be object, not string'')
                (str_path (marketplace_json mroot)) None r2
         else r2)"
proof -
  have n: "check_name_matches w mroot name (JObject manifest) r0 =
      Inr (if names_differ name manifest
           then add_error ''name_mismatch''
                   (''Plugin name mismatch: marketplace says '' @ [CHR 0x22] @ py_str w name
                      @ [CHR 0x22] @ '', plugin.json says '' @ [CHR 0x22]
                      @ py_str w (dict_get manifest ''name'') @ [CHR 0x22])
                   (str_path (marketplace_json mroot)) None r0
           else r0)" for r0
    by (simp add: check_name_matches_def then_exn_def names_differ_def)
  have v: "check_version_matches w mroot (JObject items) name (JObject manifest) r0 =
      Inr (if versions_differ items manifest
           then add_error ''version_mismatch''
                   (''Plugin '' @ [CHR 0x22] @ py_str w name @ [CHR 0x22]
                      @ '' version mismatch: marketplace=''
                      @ py_str w (dict_get items ''version'') @ '', plugin.json=''
                      @ py_str w (dict_get manifest ''version''))
                   (str_path (marketplace_json mroot)) None r0
           else r0)" for r0
    by (cases "map_of items ''version''"; cases "map_of manifest ''version''")
      (simp_all add: check_version_matches_def then_exn_def versions_differ_def contains_object
        dict_get_def del: py_contains.simps)
  have a: "check_author_format w mroot (JObject items) name r0 =
      Inr (if author_is_string items
           then add_error ''author_format_marketplace''
                (''Plugin '' @ [CHR 0x22] @ py_str w name @ [CHR 0x22]
                   @ '' author in marketplace.json must be object, not string'')
                (str_path (marketplace_json mroot)) None r0
           else r0)" for r0
    by (cases "map_of items ''author''")
      (simp_all add: check_author_format_def then_exn_def author_is_string_def contains_object
        del: py_contains.simps split: json.split)
  show ?thesis
    by (simp add: check_consistency_def assms n v a Let_def)
qed

lemma errors_add [simp]:
  "errors (add_error c m f l r) =
     errors r @ [\<lparr>severity = ''error'', check = c, message = m, file' = f, line = l\<rparr>]"
  "errors (add_warning c m f l r) = errors r"
  "errors (add_info c m f r) = errors r"
  by (simp_all add: add_error_def add_warning_def add_info_def Let_def)

lemma warnings_add [simp]:
  "warnings (add_error c m f l r) = warnings r"
  "warnings (add_warning c m f l r) =
     warnings r @ [\<lparr>severity = ''warning'', check = c, message = m, file' = f, line = l\<rparr>]"
  "warnings (add_info c m f r) = warnings r"
  by (simp_all add: add_error_def add_warning_def add_info_def Let_def)

lemma info_add [simp]:
  "info (add_error c m f l r) = info r"
  "info (add_warning c m f l r) = info r"
  "info (add_info c m f r) =
     info r @ [\<lparr>severity = ''info'', check = c, message = m, file' = f, line = None\<rparr>]"
  by (simp_all add: add_error_def add_warning_def add_info_def Let_def)

lemma status_add [simp]:
  "status (add_error c m f l r) = ''failed''"
  "status (add_warning c m f l r) = (if status r = ''passed'' then ''warning'' else status r)"
  "status (add_info c m f r) = status r"
  by (simp_all add: add_error_def add_warning_def add_info_def Let_def)

lemma demo_source_path: "truediv demo_root (lstrip ''./plugins/demo'' ''./'') = demo_plugin"
  by (simp add: demo_root_def demo_plugin_def lstrip_def startswith_def path_parts_def)

lemma demo_entry_manifest_path: "entry_manifest_path demo_root ''./plugins/demo'' = demo_manifest"
  by (simp add: entry_manifest_path_def demo_source_path)
    (simp add: demo_plugin_def demo_manifest_def startswith_def path_parts_def)

text \<open>
  The cross-reference, where it is reached. Take a registry entry with a name and a
  string source, and take the source path as \<^verbatim>\<open>_validate_plugin_entry\<close> computes it:
  the registry root joined with the source without its leading dots and slashes. When
  that path and the manifest file under it exist and the manifest loads as an object,
  the entry is processed without an exception, and the error issues it adds are, in this
  order: the \<^verbatim>\<open>duplicate_plugin\<close> error if the name was seen before; one
  \<^verbatim>\<open>name_mismatch\<close> error if the manifest's name differs from the entry's; one
  \<^verbatim>\<open>version_mismatch\<close> error if both declare a version and the versions differ; one
  \<^verbatim>\<open>author_format_marketplace\<close> error if the entry's author is a string. Each of the
  three is decided by its own condition, whatever the other two are, and adds at most
  one issue; no warning and no info issue is added.
\<close>

lemma cross_checks_at_computed_path:
  assumes "map_of items ''name'' = Some name" and "hashable name"
    and "map_of items ''source'' = Some (JString source)"
    and "path_exists w (truediv mroot (lstrip source ''./''))"
    and "path_exists w (entry_manifest_path mroot source)"
    and "json_load w (entry_manifest_path mroot source) = Inr (JObject manifest)"
  shows "\<exists>r'. validate_plugin_entry w mroot (JObject items) i names r = Inr (r', set_add name names)
     \<and> map check (errors r') =
         map check (errors r)
         @ (if seen_before name names then [''duplicate_plugin''] else [])
         @ (if names_differ name manifest then [''name_mismatch''] else [])
         @ (if versions_differ items manifest then [''version_mismatch''] else [])
         @ (if author_is_string items then [''author_format_marketplace''] else [])
     \<and> warnings r' = warnings r \<and> info r' = info r"
  by (simp add: entry_with_source [OF assms(1-3)] check_source_reaches_manifest [OF assms(4,5)]
      check_consistency_object [OF assms(6)] Let_def)

lemma cross_checks_at_computed_path_example:
  "map_of mismatched_entry ''name'' = Some (JString ''demo'')
   \<and> map_of mismatched_entry ''source'' = Some (JString ''./plugins/demo'')
   \<and> json_load (fixture [demo_plugin, demo_manifest]
                   [(demo_manifest, Inr (JObject mismatched_manifest))])
        (entry_manifest_path demo_root ''./plugins/demo'') = Inr (JObject mismatched_manifest)
   \<and> (\<exists>r'. validate_plugin_entry
              (fixture [demo_plugin, demo_manifest]
                 [(demo_manifest, Inr (JObject mismatched_manifest))])
              demo_root (JObject mismatched_entry) 0 [] new_result
            = Inr (r', [JString ''demo''])
          \<and> map check (errors r') =
              [''name_mismatch'', ''version_mismatch'', ''author_format_marketplace'']
          \<and> warnings r' = [] \<and> info r' = [])"
proof -
  let ?w = "fixture [demo_plugin, demo_manifest]
              [(demo_manifest, Inr (JObject mismatched_manifest))]"
  have h1: "map_of mismatched_entry ''name'' = Some (JString ''demo'')"
    by (simp add: mismatched_entry_def)
  have h2: "hashable (JString ''demo'')" by simp
  have h3: "map_of mismatched_entry ''source'' = Some (JString ''./plugins/demo'')"
    by (simp add: mismatched_entry_def)
  have h4: "path_exists ?w (truediv demo_root (lstrip ''./plugins/demo'' ''./''))"
    by (simp add: demo_source_path fixture_def)
  have h5: "path_exists ?w (entry_manifest_path demo_root ''./plugins/demo'')"
    by (simp add: demo_entry_manifest_path fixture_def)
  have h6: "json_load ?w (entry_manifest_path demo_root ''./plugins/demo'')
      = Inr (JObject mismatched_manifest)"
    by (simp add: demo_entry_manifest_path fixture_def)
  have c1: "\<not> seen_before (JString ''demo'') []" by (simp add: seen_before_def)
  have c2: "names_differ (JString ''demo'') mismatched_manifest"
    by (simp add: names_differ_def mismatched_manifest_def dict_get_def py_ne_def)
  have c3: "versions_differ mismatched_entry mismatched_manifest"
    by (simp add: versions_differ_def mismatched_entry_def mismatched_manifest_def py_ne_def)
  have c4: "author_is_string mismatched_entry"
    by (simp add: author_is_string_def mismatched_entry_def)
  have c5: "set_add (JString ''demo'') [] = [JString ''demo'']" by (simp add: set_add_def)
  from cross_checks_at_computed_path [OF h1 h2 h3 h4 h5 h6, of 0 "[]" new_result] h1 h3 h6
  show ?thesis
    by (simp add: c1 c2 c3 c4 c5 new_result_def)
qed

text \<open>
  A manifest that cannot be read, where the cross-reference is reached. Take a registry
  entry with a name not seen before and a string source for which the source path as
  \<^verbatim>\<open>_validate_plugin_entry\<close> computes it, and the manifest file under it, exist. If
  loading the manifest raises (the parser rejects it, or any other exception), or the
  loaded document is no object so that reading its name raises, then the entry adds one
  \<^verbatim>\<open>plugin_json_read\<close> warning and nothing else: the errors are unchanged and the
  result is failed afterwards only if it was failed before. Yet when the parser rejects
  the manifest, validating the same plugin root directly returns the single
  \<^verbatim>\<open>json_syntax\<close> error, a failed result.
\<close>

lemma unreadable_manifest_at_computed_path:
  assumes "map_of items ''name'' = Some name" and "hashable name"
    and "\<not> seen_before name names"
    and "map_of items ''source'' = Some (JString source)"
    and "path_exists w (truediv mroot (lstrip source ''./''))"
    and "path_exists w (entry_manifest_path mroot source)"
    and "json_load w (entry_manifest_path mroot source) = Inl e
         \<or> (\<exists>d. json_load w (entry_manifest_path mroot source) = Inr d \<and> py_get d ''name'' = Inl e)"
  shows "\<exists>r'. validate_plugin_entry w mroot (JObject items) i names r = Inr (r', set_add name names)
     \<and> errors r' = errors r
     \<and> map check (warnings r') = map check (warnings r) @ [''plugin_json_read'']
     \<and> info r' = info r
     \<and> (status r' = ''failed'') = (status r = ''failed'')
     \<and> (json_load w (entry_manifest_path mroot source) = Inl (JSONDecodeError msg lineno detail) \<longrightarrow>
          PluginJsonValidator_validate w (truediv mroot (lstrip source ''./'')) =
            Inr (single_error ''json_syntax'' (''Invalid JSON: '' @ msg)
                   (str_path (entry_manifest_path mroot source)) (Some lineno)))"
proof -
  have direct: "PluginJsonValidator_validate w (truediv mroot (lstrip source ''./'')) =
            Inr (single_error ''json_syntax'' (''Invalid JSON: '' @ msg)
                   (str_path (entry_manifest_path mroot source)) (Some lineno))"
    if "json_load w (entry_manifest_path mroot source) = Inl (JSONDecodeError msg lineno detail)"
    using that assms(6)
    by (simp add: PluginJsonValidator_validate_def plugin_json_path_def entry_manifest_path_def
        add_error_new)
  show ?thesis
    using direct
    by (simp add: entry_with_source [OF assms(1,2,4)] assms(3)
        check_source_reaches_manifest [OF assms(5,6)] check_consistency_unreadable [OF assms(7)])
qed

lemma unreadable_manifest_at_computed_path_example:
  "map_of plain_entry ''name'' = Some (JString ''demo'')
   \<and> map_of plain_entry ''source'' = Some (JString ''./plugins/demo'')
   \<and> json_load broken_manifest_world (entry_manifest_path demo_root ''./plugins/demo'')
       = Inl (JSONDecodeError ''Expecting value'' 1 ''Expecting value: line 1 column 1 (char 0)'')
   \<and> (\<exists>r'. validate_plugin_entry broken_manifest_world demo_root (JObject plain_entry) 0 []
              new_result = Inr (r', [JString ''demo''])
          \<and> errors r' = [] \<and> map check (warnings r') = [''plugin_json_read'']
          \<and> info r' = [] \<and> status r' \<noteq> ''failed'')
   \<and> PluginJsonValidator_validate broken_manifest_world demo_plugin =
       Inr (single_error ''json_syntax'' ''Invalid JSON: Expecting value''
              ''/repo/plugins/demo/.claude-plugin/plugin.json'' (Some 1))"
proof -
  let ?e = "JSONDecodeError ''Expecting value'' 1 ''Expecting value: line 1 column 1 (char 0)''"
  have h1: "map_of plain_entry ''name'' = Some (JString ''demo'')"
    by (simp add: plain_entry_def)
  have h2: "hashable (JString ''demo'')" by simp
  have h3: "\<not> seen_before (JString ''demo'') []" by (simp add: seen_before_def)
  have h4: "map_of plain_entry ''source'' = Some (JString ''./plugins/demo'')"
    by (simp add: plain_entry_def)
  have h5: "path_exists broken_manifest_world (truediv demo_root (lstrip ''./plugins/demo'' ''./''))"
    by (simp add: demo_source_path broken_manifest_world_def fixture_def)
  have h6: "path_exists broken_manifest_world (entry_manifest_path demo_root ''./plugins/demo'')"
    by (simp add: demo_entry_manifest_path broken_manifest_world_def fixture_def)
  have l: "json_load broken_manifest_world (entry_manifest_path demo_root ''./plugins/demo'') = Inl ?e"
    by (simp add: demo_entry_manifest_path broken_manifest_world_def fixture_def)
  then have h7: "json_load broken_manifest_world (entry_manifest_path demo_root ''./plugins/demo'')
        = Inl ?e
      \<or> (\<exists>d. json_load broken_manifest_world (entry_manifest_path demo_root ''./plugins/demo'')
            = Inr d \<and> py_get d ''name'' = Inl ?e)"
    by simp
  have c5: "set_add (JString ''demo'') [] = [JString ''demo'']" by (simp add: set_add_def)
  have s: "str_path demo_manifest = ''/repo/plugins/demo/.claude-plugin/plugin.json''"
    by (simp add: demo_manifest_def)
  from unreadable_manifest_at_computed_path [OF h1 h2 h3 h4 h5 h6 h7, of 0 new_result
      "''Expecting value''" 1 "''Expecting value: line 1 column 1 (char 0)''"]
  have "\<exists>r'. validate_plugin_entry broken_manifest_world demo_root (JObject plain_entry) 0 []
              new_result = Inr (r', [JString ''demo''])
          \<and> errors r' = [] \<and> map check (warnings r') = [''plugin_json_read'']
          \<and> info r' = [] \<and> status r' \<noteq> ''failed''
          \<and> PluginJsonValidator_validate broken_manifest_world demo_plugin =
              Inr (single_error ''json_syntax'' ''Invalid JSON: Expecting value''
                ''/repo/plugins/demo/.claude-plugin/plugin.json'' (Some 1))"
    by (simp add: c5 new_result_def demo_source_path demo_entry_manifest_path s
        l [unfolded demo_entry_manifest_path])
  then obtain r' where
    a: "validate_plugin_entry broken_manifest_world demo_root (JObject plain_entry) 0 []
          new_result = Inr (r', [JString ''demo''])"
    and b: "errors r' = []" and c: "map check (warnings r') = [''plugin_json_read'']"
    and d: "info r' = []" and e: "status r' \<noteq> ''failed''"
    and f: "PluginJsonValidator_validate broken_manifest_world demo_plugin =
              Inr (single_error ''json_syntax'' ''Invalid JSON: Expecting value''
                ''/repo/plugins/demo/.claude-plugin/plugin.json'' (Some 1))"
    by (elim exE conjE)
  show ?thesis
    by (intro conjI exI [of _ r'] h1 h4 l a b c d e f)
qed

text \<open>
  A whole run of the registry validator on such an entry: the result has one warning, no
  error, and status warning.
\<close>

lemma demo_registry_path: "marketplace_json demo_root = demo_registry"
  by (simp add: marketplace_json_def demo_root_def demo_registry_def startswith_def path_parts_def)

lemma registry_with_rejected_manifest:
  "\<exists>r. MarketplaceValidator_validate registry_world demo_root = Inr r
     \<and> status r = ''warning'' \<and> errors r = [] \<and> map check (warnings r) = [''plugin_json_read'']"
proof -
  have ex: "path_exists registry_world demo_registry"
    "path_exists registry_world demo_plugin" "path_exists registry_world demo_manifest"
    by (simp_all add: registry_world_def fixture_def)
  have ld: "json_load registry_world demo_registry =
      Inr (JObject [(''name'', JString ''market''),
                    (''owner'', JObject [(''name'', JString ''me'')]),
                    (''plugins'', JList [JObject plain_entry])])"
    by (simp add: registry_world_def fixture_def demo_registry_def demo_manifest_def)
  have lm: "json_load registry_world demo_manifest =
      Inl (JSONDecodeError ''Expecting value'' 1 ''Expecting value: line 1 column 1 (char 0)'')"
    by (simp add: registry_world_def fixture_def demo_registry_def demo_manifest_def)
  have h1: "map_of plain_entry ''name'' = Some (JString ''demo'')" by (simp add: plain_entry_def)
  have h3: "map_of plain_entry ''source'' = Some (JString ''./plugins/demo'')"
    by (simp add: plain_entry_def)
  have entry: "validate_plugin_entry registry_world demo_root (JObject plain_entry) 0 [] r =
      Inr (add_warning ''plugin_json_read''
             (''Could not read plugin.json for '' @ [CHR 0x22] @ ''demo'' @ [CHR 0x22] @ '': ''
                @ ''Expecting value: line 1 column 1 (char 0)'')
             (str_path demo_registry) None r, [JString ''demo''])" for r
    by (simp add: entry_with_source [OF h1 _ h3] seen_before_def set_add_def
        check_source_reaches_manifest demo_source_path demo_entry_manifest_path ex
        check_consistency_unreadable [of _ _ "JSONDecodeError ''Expecting value'' 1
           ''Expecting value: line 1 column 1 (char 0)''"] lm py_str_def demo_registry_path)
  show ?thesis
    by (simp add: MarketplaceValidator_validate_def demo_registry_path ex ld then_exn_def
        check_owner_def check_plugins_def entry new_result_def)
qed

subsection \<open>A source that begins with a dot\<close>

text \<open>
  \<^verbatim>\<open>_validate_plugin_entry\<close> computes the source path with
  \<^verbatim>\<open>source.lstrip('./')\<close>, which removes every leading dot and slash and not the
  prefix \<^verbatim>\<open>./\<close>: for the source \<^verbatim>\<open>./.hidden/demo\<close> it looks for \<^verbatim>\<open>hidden/demo\<close>.
\<close>

lemma hidden_paths:
  "truediv demo_root (strip_dot_slash ''./.hidden/demo'') = hidden_plugin"
  "plugin_json_path hidden_plugin = hidden_manifest"
  "truediv demo_root (lstrip ''./.hidden/demo'' ''./'') = Path True [''repo'', ''hidden'', ''demo'']"
  by (simp_all add: demo_root_def hidden_plugin_def hidden_manifest_def strip_dot_slash_def
      plugin_json_path_def lstrip_def startswith_def path_parts_def)

lemma hidden_registry_file:
  "str_path (marketplace_json demo_root) = ''/repo/.claude-plugin/marketplace.json''"
  by (simp add: demo_registry_path demo_registry_def)

text \<open>
  Claim C3. The cross-reference is not made for every entry whose source leads to a
  readable manifest. The source \<^verbatim>\<open>./.hidden/demo\<close> names the directory
  \<^verbatim>\<open>.hidden/demo\<close> of the registry root. That directory exists; its manifest exists,
  loads as an object and disagrees with the entry in name and in version; the author of
  the entry is a string. The entry gets the \<^verbatim>\<open>source_path_missing\<close> error and none of
  \<^verbatim>\<open>name_mismatch\<close>, \<^verbatim>\<open>version_mismatch\<close> and \<^verbatim>\<open>author_format_marketplace\<close>.
\<close>

theorem hidden_source_not_cross_checked:
  \<open>truediv demo_root (strip_dot_slash ''./.hidden/demo'') = hidden_plugin
   \<and> path_exists hidden_source_world hidden_plugin
   \<and> path_exists hidden_source_world (plugin_json_path hidden_plugin)
   \<and> json_load hidden_source_world (plugin_json_path hidden_plugin) = Inr (JObject mismatched_manifest)
   \<and> names_differ (JString ''demo'') mismatched_manifest
   \<and> versions_differ hidden_entry mismatched_manifest
   \<and> author_is_string hidden_entry
   \<and> validate_plugin_entry hidden_source_world demo_root (JObject hidden_entry) 0 [] new_result =
       Inr (single_error ''source_path_missing''
              ''Plugin "demo" source path does not exist: ./.hidden/demo''
              ''/repo/.claude-plugin/marketplace.json'' None,
            [JString ''demo''])\<close>
proof -
  have w: "path_exists hidden_source_world hidden_plugin"
    "path_exists hidden_source_world hidden_manifest"
    "json_load hidden_source_world hidden_manifest = Inr (JObject mismatched_manifest)"
    "\<not> path_exists hidden_source_world (Path True [''repo'', ''hidden'', ''demo''])"
    by (simp_all add: hidden_source_world_def fixture_def hidden_plugin_def hidden_manifest_def)
  have d: "names_differ (JString ''demo'') mismatched_manifest"
    "versions_differ hidden_entry mismatched_manifest" "author_is_string hidden_entry"
    by (simp_all add: names_differ_def versions_differ_def author_is_string_def
        hidden_entry_def mismatched_manifest_def py_ne_def dict_get_def)
  have v: \<open>validate_plugin_entry hidden_source_world demo_root (JObject hidden_entry) 0 [] new_result =
       Inr (single_error ''source_path_missing''
              ''Plugin "demo" source path does not exist: ./.hidden/demo''
              ''/repo/.claude-plugin/marketplace.json'' None,
            [JString ''demo''])\<close>
    by (simp add: validate_plugin_entry_def hidden_entry_def then_exn_def 
        set_contains_def set_add_def check_source_def hidden_paths w Let_def add_error_new
        hidden_registry_file py_str_def)
  from w d v show ?thesis by (simp add: hidden_paths)
qed

text \<open>
  Claim C10. A manifest that the parser rejects does not always leave the registry
  result without an error. The entry has the source \<^verbatim>\<open>./.hidden/demo\<close>; the directory
  \<^verbatim>\<open>.hidden/demo\<close> of the registry root exists and holds a manifest that the parser
  rejects. The registry validator returns the single \<^verbatim>\<open>source_path_missing\<close> error,
  a failed result with no \<^verbatim>\<open>plugin_json_read\<close> warning. Validating the plugin root
  directly returns the single \<^verbatim>\<open>json_syntax\<close> error, as the claim says.
\<close>

theorem unparsable_hidden_manifest_fails_registry:
  \<open>truediv demo_root (strip_dot_slash ''./.hidden/demo'') = hidden_plugin
   \<and> path_exists hidden_registry_world hidden_plugin
   \<and> path_exists hidden_registry_world (plugin_json_path hidden_plugin)
   \<and> json_load hidden_registry_world (plugin_json_path hidden_plugin) =
       Inl (JSONDecodeError ''Expecting value'' 1 ''Expecting value: line 1 column 1 (char 0)'')
   \<and> MarketplaceValidator_validate hidden_registry_world demo_root =
       Inr (single_error ''source_path_missing''
              ''Plugin "demo" source path does not exist: ./.hidden/demo''
              ''/repo/.claude-plugin/marketplace.json'' None)
   \<and> PluginJsonValidator_validate hidden_registry_world hidden_plugin =
       Inr (single_error ''json_syntax'' ''Invalid JSON: Expecting value''
              ''/repo/.hidden/demo/.claude-plugin/plugin.json'' (Some 1))\<close>
proof -
  have w: "path_exists hidden_registry_world hidden_plugin"
    "path_exists hidden_registry_world hidden_manifest"
    "path_exists hidden_registry_world demo_registry"
    "json_load hidden_registry_world hidden_manifest =
       Inl (JSONDecodeError ''Expecting value'' 1 ''Expecting value: line 1 column 1 (char 0)'')"
    "\<not> path_exists hidden_registry_world (Path True [''repo'', ''hidden'', ''demo''])"
    by (simp_all add: hidden_registry_world_def fixture_def hidden_plugin_def hidden_manifest_def
        demo_registry_def)
  have ld: "json_load hidden_registry_world demo_registry =
      Inr (JObject [(''name'', JString ''market''),
                    (''owner'', JObject [(''name'', JString ''me'')]),
                    (''plugins'', JList [JObject hidden_plain_entry])])"
    by (simp add: hidden_registry_world_def fixture_def demo_registry_def hidden_manifest_def)
  have e: \<open>validate_plugin_entry hidden_registry_world demo_root (JObject hidden_plain_entry) 0 []
        new_result =
       Inr (single_error ''source_path_missing''
              ''Plugin "demo" source path does not exist: ./.hidden/demo''
              ''/repo/.claude-plugin/marketplace.json'' None,
            [JString ''demo''])\<close>
    by (simp add: validate_plugin_entry_def hidden_plain_entry_def then_exn_def 
        set_contains_def set_add_def check_source_def hidden_paths w Let_def add_error_new
        hidden_registry_file py_str_def)
  have m: \<open>MarketplaceValidator_validate hidden_registry_world demo_root =
       Inr (single_error ''source_path_missing''
              ''Plugin "demo" source path does not exist: ./.hidden/demo''
              ''/repo/.claude-plugin/marketplace.json'' None)\<close>
    by (simp add: MarketplaceValidator_validate_def demo_registry_path w ld then_exn_def
         check_owner_def check_plugins_def e)
  have p: "PluginJsonValidator_validate hidden_registry_world hidden_plugin =
       Inr (single_error ''json_syntax'' ''Invalid JSON: Expecting value''
              ''/repo/.hidden/demo/.claude-plugin/plugin.json'' (Some 1))"
    by (simp add: PluginJsonValidator_validate_def hidden_paths w add_error_new)
       (simp add: hidden_manifest_def)
  from w m p show ?thesis by (simp add: hidden_paths)
qed

subsection \<open>Duplicate names in the registry\<close>

lemma string_namedE:
  assumes "string_named entry"
  obtains items n where "entry = JObject items" and "map_of items ''name'' = Some (JString n)"
    and "name_of entry = JString n"
proof (cases entry)
  case (JObject items)
  show ?thesis
  proof (cases "map_of items ''name''")
    case None
    with assms JObject show ?thesis by (simp add: string_named_def)
  next
    case (Some v)
    with assms JObject obtain n where "v = JString n"
      by (cases v) (simp_all add: string_named_def)
    with Some JObject that show ?thesis by (simp add: name_of_def dict_get_def)
  qed
qed (use assms in \<open>simp_all add: string_named_def\<close>)

lemma seen_before_string: "seen_before (JString n) names = (JString n \<in> set names)"
  by (induction names) (auto simp: seen_before_def)

lemma set_set_add: "set (set_add (JString n) names) = insert (JString n) (set names)"
  using seen_before_string [of n names]
  by (auto simp: set_add_def seen_before_def)

lemma set_add_seen: "seen_before v names \<Longrightarrow> set_add v names = names"
  by (simp add: set_add_def seen_before_def)

lemma set_add_new: "\<not> seen_before v names \<Longrightarrow> set_add v names = names @ [v]"
  by (simp add: set_add_def seen_before_def)

lemma entry_step:
  assumes "string_named entry"
  shows "validate_plugin_entry w mroot entry i names r =
     Inr (remaining_checks w mroot entry
            (if name_of entry \<in> set names
             then add_error ''duplicate_plugin'' (message (duplicate_issue w mroot (name_of entry)))
                    (str_path (marketplace_json mroot)) None r
             else r),
          set_add (name_of entry) names)"
proof -
  from assms obtain items n where e: "entry = JObject items"
    and n: "map_of items ''name'' = Some (JString n)" and nm: "name_of entry = JString n"
    by (rule string_namedE)
  show ?thesis
    unfolding e validate_plugin_entry_def
    by (cases "map_of items ''source''")
      (simp_all add: contains_object n then_exn_def set_contains_hashable seen_before_string
        Let_def remaining_checks_def nm [unfolded e] duplicate_issue_def
        del: py_contains.simps)
qed

lemma duplicate_errors_add [simp]:
  "duplicate_errors (add_error c m f l r) =
     duplicate_errors r @
       (if c = ''duplicate_plugin''
        then [\<lparr>severity = ''error'', check = c, message = m, file' = f, line = l\<rparr>] else [])"
  "duplicate_errors (add_warning c m f l r) = duplicate_errors r"
  by (simp_all add: duplicate_errors_def)

lemma duplicate_errors_check_consistency:
  "duplicate_errors (check_consistency w mroot entry name mp r) = duplicate_errors r"
proof (cases "json_load w mp")
  case (Inl e)
  then show ?thesis by (simp add: check_consistency_def)
next
  case (Inr pd)
  obtain raised r1 where rs:
    "run_steps [check_name_matches w mroot name pd, check_version_matches w mroot entry name pd,
                check_author_format w mroot entry name] r = (raised, r1)"
    by (cases "run_steps [check_name_matches w mroot name pd,
          check_version_matches w mroot entry name pd, check_author_format w mroot entry name] r")
  have "duplicate_errors r1 = duplicate_errors r"
    using rs
  proof (rule run_steps_preserves)
    show "duplicate_errors r = duplicate_errors r" ..
  next
    fix f a b
    assume f: "f \<in> set [check_name_matches w mroot name pd,
        check_version_matches w mroot entry name pd, check_author_format w mroot entry name]"
      and ab: "f a = Inr b" and a: "duplicate_errors a = duplicate_errors r"
    have "on_return (\<lambda>b. duplicate_errors b = duplicate_errors a)
        (check_name_matches w mroot name pd a)"
      by (auto simp: check_name_matches_def on_return_then intro!: on_returnI)
    moreover have "on_return (\<lambda>b. duplicate_errors b = duplicate_errors a)
        (check_version_matches w mroot entry name pd a)"
      by (auto simp: check_version_matches_def on_return_then intro!: on_returnI)
    moreover have "on_return (\<lambda>b. duplicate_errors b = duplicate_errors a)
        (check_author_format w mroot entry name a)"
      by (auto simp: check_author_format_def on_return_then intro!: on_returnI
          split: json.split)
    ultimately show "duplicate_errors b = duplicate_errors r"
      using f ab a by auto
  qed
  with Inr rs show ?thesis
    by (simp add: check_consistency_def split: option.split)
qed

lemma duplicate_errors_check_source:
  "duplicate_errors (check_source w mroot entry name src r) = duplicate_errors r"
  by (simp add: check_source_def Let_def duplicate_errors_check_consistency split: json.split)

lemma duplicate_errors_remaining_checks:
  "duplicate_errors (remaining_checks w mroot entry r) = duplicate_errors r"
  by (simp add: remaining_checks_def duplicate_errors_check_source
      split: json.split option.split)

lemma validate_entries_append:
  "validate_entries w mroot i (xs @ ys) names r =
     (case validate_entries w mroot i xs names r of
        Inl e \<Rightarrow> Inl e
      | Inr (r1, names1) \<Rightarrow> validate_entries w mroot (i + length xs) ys names1 r1)"
  by (induction xs arbitrary: i names r) (simp_all split: sum.split)

lemma validate_entries_string_named:
  assumes "list_all string_named es"
  shows "\<exists>r' names'. validate_entries w mroot i es names r = Inr (r', names')
     \<and> set names' = set names \<union> set (map name_of es)
     \<and> duplicate_errors r' =
         duplicate_errors r @ map (duplicate_issue w mroot) (repeated (set names) (map name_of es))"
  using assms
proof (induction es arbitrary: i names r)
  case Nil
  then show ?case by simp
next
  case (Cons e es)
  from Cons.prems have e: "string_named e" and es: "list_all string_named es" by simp_all
  from e obtain n where n: "name_of e = JString n" by (rule string_namedE)
  let ?r1 = "remaining_checks w mroot e
            (if name_of e \<in> set names
             then add_error ''duplicate_plugin'' (message (duplicate_issue w mroot (name_of e)))
                    (str_path (marketplace_json mroot)) None r
             else r)"
  from Cons.IH [OF es, of "Suc i" "set_add (name_of e) names" ?r1]
  obtain r' names' where
    run: "validate_entries w mroot (Suc i) es (set_add (name_of e) names) ?r1 = Inr (r', names')"
    and nms: "set names' = set (set_add (name_of e) names) \<union> set (map name_of es)"
    and dups: "duplicate_errors r' = duplicate_errors ?r1 @
        map (duplicate_issue w mroot) (repeated (set (set_add (name_of e) names)) (map name_of es))"
    by blast
  have "validate_entries w mroot i (e # es) names r = Inr (r', names')"
    by (simp add: entry_step [OF e] run)
  moreover have "set names' = set names \<union> set (map name_of (e # es))"
    using nms by (simp add: n set_set_add)
  moreover have "duplicate_errors r' = duplicate_errors r @
      map (duplicate_issue w mroot) (repeated (set names) (map name_of (e # es)))"
    using dups
    by (simp add: duplicate_errors_remaining_checks n set_set_add duplicate_issue_def)
  ultimately show ?case by blast
qed

lemma repeated_append:
  "repeated seen (xs @ ys) = repeated seen xs @ repeated (seen \<union> set xs) ys"
  by (induction xs arbitrary: seen) simp_all

lemma repeated_distinct: "distinct xs \<Longrightarrow> set xs \<inter> seen = {} \<Longrightarrow> repeated seen xs = []"
  by (induction xs arbitrary: seen) auto

lemma repeated_one_pair:
  assumes "distinct (pre @ [n] @ mid @ post)"
  shows "repeated {} (pre @ [n] @ mid) = []"
    and "repeated {} (pre @ [n] @ mid @ [n] @ post) = [n]"
proof -
  from assms have d1: "distinct (pre @ [n] @ mid)" by auto
  then show a: "repeated {} (pre @ [n] @ mid) = []"
    by (rule repeated_distinct) simp
  from assms have "distinct post" and "set post \<inter> insert n ({} \<union> set (pre @ [n] @ mid)) = {}"
    by auto
  then have "repeated (insert n ({} \<union> set (pre @ [n] @ mid))) post = []"
    by (rule repeated_distinct)
  with a show "repeated {} (pre @ [n] @ mid @ [n] @ post) = [n]"
    using repeated_append [of "{}" "pre @ [n] @ mid" "[n] @ post"] by simp
qed

text \<open>
  Claim C4. Take a plugins sequence whose entries all have a string name and in which two
  entries, \<open>first\<close> before \<open>second\<close>, share a name while all other names are different.
  Then the loop processes the sequence without an exception and:
  the first occurrence gets the remaining checks and no duplicate error, and records its
  name; up to just before the second occurrence no \<^verbatim>\<open>duplicate_plugin\<close> error has
  been added; the second occurrence adds the \<^verbatim>\<open>duplicate_plugin\<close> error, then gets
  the same remaining checks (source, manifest, cross-reference), and the name stays
  recorded; the whole sequence adds exactly one \<^verbatim>\<open>duplicate_plugin\<close> error.
\<close>

theorem duplicate_reported_once:
  assumes "list_all string_named (pre @ [first] @ mid @ [second] @ post)"
    and "name_of first = name_of second"
    and "distinct (map name_of (pre @ [first] @ mid @ post))"
  shows "\<exists>r0 names0 r1 names1 r names.
       validate_entries w mroot 0 pre [] result = Inr (r0, names0)
     \<and> validate_plugin_entry w mroot first (length pre) names0 r0 =
         Inr (remaining_checks w mroot first r0, names0 @ [name_of first])
     \<and> validate_entries w mroot 0 (pre @ [first] @ mid) [] result = Inr (r1, names1)
     \<and> duplicate_errors r1 = duplicate_errors result
     \<and> name_of second \<in> set names1
     \<and> validate_plugin_entry w mroot second (length (pre @ [first] @ mid)) names1 r1 =
         Inr (remaining_checks w mroot second
                (add_error ''duplicate_plugin''
                   (message (duplicate_issue w mroot (name_of second)))
                   (str_path (marketplace_json mroot)) None r1),
              names1)
     \<and> validate_entries w mroot 0 (pre @ [first] @ mid @ [second] @ post) [] result = Inr (r, names)
     \<and> duplicate_errors r = duplicate_errors result @ [duplicate_issue w mroot (name_of second)]"
proof -
  from assms(1) have sn0: "list_all string_named pre" and snf: "string_named first"
    and sn1: "list_all string_named (pre @ [first] @ mid)"
    and sn2: "string_named second" by simp_all
  from assms(2,3) have d: "distinct (map name_of pre @ [name_of second] @ map name_of mid
      @ map name_of post)" by simp
  from validate_entries_string_named [OF sn0, of w mroot 0 "[]" result] obtain r0 names0 where
    run0: "validate_entries w mroot 0 pre [] result = Inr (r0, names0)"
    and nms0: "set names0 = set [] \<union> set (map name_of pre)"
    by blast
  from nms0 assms(3) have fresh: "name_of first \<notin> set names0" by simp
  from snf obtain m where m: "name_of first = JString m" by (rule string_namedE)
  from fresh m have "\<not> seen_before (name_of first) names0" by (simp add: seen_before_string)
  then have new: "set_add (name_of first) names0 = names0 @ [name_of first]" by (rule set_add_new)
  have f: "validate_plugin_entry w mroot first (length pre) names0 r0 =
         Inr (remaining_checks w mroot first r0, names0 @ [name_of first])"
    by (simp add: entry_step [OF snf] fresh new)
  from validate_entries_string_named [OF sn1, of w mroot 0 "[]" result] obtain r1 names1 where
    run1: "validate_entries w mroot 0 (pre @ [first] @ mid) [] result = Inr (r1, names1)"
    and nms1: "set names1 = set [] \<union> set (map name_of (pre @ [first] @ mid))"
    and dups1: "duplicate_errors r1 = duplicate_errors result @
        map (duplicate_issue w mroot) (repeated (set []) (map name_of (pre @ [first] @ mid)))"
    by blast
  from dups1 repeated_one_pair(1) [OF d] assms(2)
  have a: "duplicate_errors r1 = duplicate_errors result" by simp
  from nms1 assms(2) have b: "name_of second \<in> set names1" by simp
  from sn2 obtain n where n: "name_of second = JString n" by (rule string_namedE)
  from b n have "seen_before (name_of second) names1" by (simp add: seen_before_string)
  then have keep: "set_add (name_of second) names1 = names1" by (rule set_add_seen)
  have c: "validate_plugin_entry w mroot second (length (pre @ [first] @ mid)) names1 r1 =
         Inr (remaining_checks w mroot second
                (add_error ''duplicate_plugin''
                   (message (duplicate_issue w mroot (name_of second)))
                   (str_path (marketplace_json mroot)) None r1),
              names1)"
    by (simp add: entry_step [OF sn2] b keep)
  from validate_entries_string_named [OF assms(1), of w mroot 0 "[]" result] obtain r names where
    run: "validate_entries w mroot 0 (pre @ [first] @ mid @ [second] @ post) [] result
            = Inr (r, names)"
    and dups: "duplicate_errors r = duplicate_errors result @
        map (duplicate_issue w mroot)
          (repeated (set []) (map name_of (pre @ [first] @ mid @ [second] @ post)))"
    by blast
  from dups repeated_one_pair(2) [OF d] assms(2)
  have e: "duplicate_errors r = duplicate_errors result
      @ [duplicate_issue w mroot (name_of second)]"
    by simp
  from run0 f run1 a b c run e show ?thesis by blast
qed

theorem duplicate_reported_once_witness:
  "list_all string_named ([] @ [dup_first] @ [] @ [dup_second] @ [])
   \<and> name_of dup_first = name_of dup_second
   \<and> distinct (map name_of ([] @ [dup_first] @ [] @ []))
   \<and> (\<exists>r. validate_entries (fixture [] []) demo_root 0 [dup_first, dup_second] [] new_result
              = Inr (r, [JString ''dup''])
          \<and> map check (errors r) =
              [''source_path_missing'', ''duplicate_plugin'', ''plugin_source_missing'']
          \<and> duplicate_errors r = [duplicate_issue (fixture [] []) demo_root (JString ''dup'')])"
proof -
  have h1: "list_all string_named ([] @ [dup_first] @ [] @ [dup_second] @ [])"
    by (simp add: string_named_def dup_first_def dup_second_def)
  have h2: "name_of dup_first = name_of dup_second"
    by (simp add: name_of_def dict_get_def dup_first_def dup_second_def)
  have h3: "distinct (map name_of ([] @ [dup_first] @ [] @ []))" by simp
  have n: "name_of dup_second = JString ''dup''"
    by (simp add: name_of_def dict_get_def dup_second_def)
  have missing: "\<not> path_exists (fixture [] []) p" for p
    by (simp add: fixture_def)
  have run: "validate_entries (fixture [] []) demo_root 0 [dup_first, dup_second] [] new_result =
      Inr (remaining_checks (fixture [] []) demo_root dup_second
             (add_error ''duplicate_plugin''
                (message (duplicate_issue (fixture [] []) demo_root (JString ''dup'')))
                (str_path (marketplace_json demo_root)) None
                (remaining_checks (fixture [] []) demo_root dup_first new_result)),
           [JString ''dup''])"
    using h1 h2
    by (simp add: entry_step n set_add_def)
  have chk: "map check (errors (remaining_checks (fixture [] []) demo_root dup_second
             (add_error ''duplicate_plugin''
                (message (duplicate_issue (fixture [] []) demo_root (JString ''dup'')))
                (str_path (marketplace_json demo_root)) None
                (remaining_checks (fixture [] []) demo_root dup_first new_result)))) =
      [''source_path_missing'', ''duplicate_plugin'', ''plugin_source_missing'']"
    by (simp add: remaining_checks_def dup_first_def dup_second_def check_source_def missing
        new_result_def)
  from duplicate_reported_once [OF h1 h2 h3, of "fixture [] []" demo_root new_result]
  obtain r names where
    "validate_entries (fixture [] []) demo_root 0 ([] @ [dup_first] @ [] @ [dup_second] @ [])
       [] new_result = Inr (r, names)"
    and d: "duplicate_errors r = duplicate_errors new_result
        @ [duplicate_issue (fixture [] []) demo_root (name_of dup_second)]"
    by blast
  with run have r: "r = remaining_checks (fixture [] []) demo_root dup_second
             (add_error ''duplicate_plugin''
                (message (duplicate_issue (fixture [] []) demo_root (JString ''dup'')))
                (str_path (marketplace_json demo_root)) None
                (remaining_checks (fixture [] []) demo_root dup_first new_result))"
    by simp
  from run r have e1: "validate_entries (fixture [] []) demo_root 0 [dup_first, dup_second] []
      new_result = Inr (r, [JString ''dup''])"
    by simp
  from chk r have e2: "map check (errors r) =
      [''source_path_missing'', ''duplicate_plugin'', ''plugin_source_missing'']"
    by simp
  from d have e3: "duplicate_errors r = [duplicate_issue (fixture [] []) demo_root (JString ''dup'')]"
    by (simp add: n new_result_def duplicate_errors_def)
  show ?thesis
    by (intro conjI exI [of _ r] h1 h2 h3 e1 e2 e3)
qed

subsection \<open>Path values of a manifest\<close>

text \<open>
  What the loop body of \<^verbatim>\<open>_validate_paths\<close> adds for one string value: the three
  checks are decided independently. The existence check looks at the value with
  \<^emph>\<open>all\<close> its leading dots and slashes dropped, which is the value with a leading
  \<^verbatim>\<open>./\<close> removed only when what follows starts with neither a dot nor a slash.
\<close>

lemma path_value_checks:
  "map check (errors (validate_path_value w plugin_path field p r)) =
     map check (errors r)
     @ (if startswith p ''/'' then [field @ ''_absolute''] else [])
     @ (if \<not> path_exists w (truediv plugin_path (lstrip p ''./'')) then [field @ ''_exists''] else [])"
  "map check (warnings (validate_path_value w plugin_path field p r)) =
     map check (warnings r) @ (if \<not> startswith p ''./'' then [field @ ''_prefix''] else [])"
  "info (validate_path_value w plugin_path field p r) = info r"
  by (simp_all add: validate_path_value_def Let_def)

lemma lstrip_plain:
  assumes "q = [] \<or> (hd q \<noteq> CHR ''.'' \<and> hd q \<noteq> CHR ''/'')"
  shows "lstrip (''./'' @ q) ''./'' = strip_dot_slash (''./'' @ q)"
    and "lstrip q ''./'' = strip_dot_slash q"
  using assms by (cases q; auto simp: lstrip_def strip_dot_slash_def startswith_def)+

text \<open>
  Claim C5. The absolute-path error and the prefix warning are as the claim says
  (lemma \<open>path_value_checks\<close>), but the existence check is not made on the value with a
  leading \<^verbatim>\<open>./\<close> removed. In a plugin root that holds \<^verbatim>\<open>commands\<close> and neither
  \<^verbatim>\<open>.commands\<close> nor \<^verbatim>\<open>../commands\<close>, the values \<^verbatim>\<open>./.commands\<close> and
  \<^verbatim>\<open>../commands\<close> name paths that do not exist, and no error is added. In a plugin
  root that holds \<^verbatim>\<open>.claude/commands\<close>, the value \<^verbatim>\<open>./.claude/commands\<close> names a
  path that exists, and the \<^verbatim>\<open>commands_exists\<close> error is added.
\<close>

theorem path_existence_check_strips_dots:
  "\<not> path_exists commands_world (truediv demo_plugin (strip_dot_slash ''./.commands''))
   \<and> validate_paths commands_world demo_plugin ''commands'' (JString ''./.commands'') new_result
       = new_result
   \<and> \<not> path_exists commands_world (truediv demo_plugin (strip_dot_slash ''../commands''))
   \<and> map check (errors (validate_paths commands_world demo_plugin ''commands''
         (JString ''../commands'') new_result)) = []
   \<and> path_exists hidden_world (truediv demo_plugin (strip_dot_slash ''./.claude/commands''))
   \<and> map check (errors (validate_paths hidden_world demo_plugin ''commands''
         (JString ''./.claude/commands'') new_result)) = [''commands_exists'']"
  by (simp add: commands_world_def hidden_world_def fixture_def demo_plugin_def
      strip_dot_slash_def startswith_def path_parts_def validate_paths_def
      validate_path_value_def lstrip_def Let_def add_error_def add_warning_def new_result_def)

subsection \<open>The name of a manifest\<close>

text \<open>
  The matcher decides membership in the language of a regular expression, and the
  language of the name pattern is the set of names as the specification words them.
  With the meaning of \<^verbatim>\<open>$\<close>, the check accepts those names and those names
  followed by one newline.
\<close>

lemma accepts_empty_lang: "accepts_empty r = ([] \<in> lang r)"
  by (induction r) (auto simp: conc_def intro: star.intros)

lemma conc_cons:
  "(c # s \<in> conc A B) = ((\<exists>u v. s = u @ v \<and> c # u \<in> A \<and> v \<in> B) \<or> ([] \<in> A \<and> c # s \<in> B))"
proof
  assume "c # s \<in> conc A B"
  then obtain u v where uv: "c # s = u @ v" "u \<in> A" "v \<in> B" by (auto simp: conc_def)
  show "(\<exists>u v. s = u @ v \<and> c # u \<in> A \<and> v \<in> B) \<or> ([] \<in> A \<and> c # s \<in> B)"
  proof (cases u)
    case Nil
    with uv show ?thesis by simp
  next
    case (Cons a u')
    with uv have "s = u' @ v" "c # u' \<in> A" by simp_all
    with uv(3) show ?thesis by blast
  qed
next
  assume "(\<exists>u v. s = u @ v \<and> c # u \<in> A \<and> v \<in> B) \<or> ([] \<in> A \<and> c # s \<in> B)"
  then show "c # s \<in> conc A B"
  proof
    assume "\<exists>u v. s = u @ v \<and> c # u \<in> A \<and> v \<in> B"
    then obtain u v where "s = u @ v" "c # u \<in> A" "v \<in> B" by blast
    then have "c # s = (c # u) @ v" by simp
    with \<open>c # u \<in> A\<close> \<open>v \<in> B\<close> show ?thesis unfolding conc_def by blast
  next
    assume "[] \<in> A \<and> c # s \<in> B"
    then have "c # s = [] @ (c # s)" "[] \<in> A" "c # s \<in> B" by simp_all
    then show ?thesis unfolding conc_def by blast
  qed
qed

lemma star_cons_split:
  assumes "w \<in> star A" and "w = c # s"
  shows "\<exists>u v. s = u @ v \<and> c # u \<in> A \<and> v \<in> star A"
  using assms
proof (induction arbitrary: s)
  case star_empty
  then show ?case by simp
next
  case (star_more u v)
  show ?case
  proof (cases u)
    case Nil
    with star_more show ?thesis by simp
  next
    case (Cons a u')
    with star_more.prems have "s = u' @ v" "a = c" by simp_all
    with Cons star_more.hyps(1,2) show ?thesis by blast
  qed
qed

lemma star_cons:
  "(c # s \<in> star A) = (\<exists>u v. s = u @ v \<and> c # u \<in> A \<and> v \<in> star A)"
proof
  assume "c # s \<in> star A"
  then show "\<exists>u v. s = u @ v \<and> c # u \<in> A \<and> v \<in> star A"
    by (rule star_cons_split) simp
next
  assume "\<exists>u v. s = u @ v \<and> c # u \<in> A \<and> v \<in> star A"
  then obtain u v where "s = u @ v" "c # u \<in> A" "v \<in> star A" by blast
  then have "(c # u) @ v \<in> star A" by (intro star.star_more)
  with \<open>s = u @ v\<close> show "c # s \<in> star A" by simp
qed

lemma lang_after_char: "(s \<in> lang (after_char r c)) = (c # s \<in> lang r)"
proof (induction r arbitrary: s)
  case (Cat r1 r2)
  then show ?case
    by (auto simp: conc_cons accepts_empty_lang) (auto simp: conc_def)
next
  case (Star r)
  have "(s \<in> lang (after_char (Star r) c)) = (\<exists>u v. s = u @ v \<and> u \<in> lang (after_char r c) \<and> v \<in> star (lang r))"
    by (auto simp: conc_def)
  also have "\<dots> = (\<exists>u v. s = u @ v \<and> c # u \<in> lang r \<and> v \<in> star (lang r))"
    using Star.IH by simp
  also have "\<dots> = (c # s \<in> lang (Star r))"
    by (simp add: star_cons)
  finally show ?case .
qed auto

lemma foldl_after_char: "accepts_empty (foldl after_char r s) = (s \<in> lang r)"
  by (induction s arbitrary: r) (simp_all add: accepts_empty_lang lang_after_char)

lemma re_fullmatch_lang: "re_fullmatch r s = (s \<in> lang r)"
  by (simp add: re_fullmatch_def foldl_after_char)

lemma star_chars: "(s \<in> star {[c] | c. P c}) = list_all P s"
proof
  assume "s \<in> star {[c] | c. P c}"
  then show "list_all P s" by induction auto
next
  assume "list_all P s"
  then show "s \<in> star {[c] | c. P c}"
  proof (induction s)
    case Nil
    show ?case by (rule star_empty)
  next
    case (Cons c s)
    then have "[c] \<in> {[c] | c. P c}" and "s \<in> star {[c] | c. P c}" by simp_all
    then have "[c] @ s \<in> star {[c] | c. P c}" by (rule star_more)
    then show ?case by simp
  qed
qed

lemma in_cls_lower: "in_cls c [(CHR ''a'', CHR ''z'')] = is_lower c"
  by (simp add: in_cls_def is_lower_def)

lemma in_cls_alnum: "in_cls c [(CHR ''a'', CHR ''z''), (CHR ''0'', CHR ''9'')] = alnum c"
  by (auto simp: in_cls_def alnum_def is_lower_def is_digit_def)

lemma in_cls_single: "in_cls c [(d, d)] = (c = d)"
proof -
  have "((of_char d :: nat) \<le> of_char c \<and> (of_char c :: nat) \<le> of_char d) = (c = d)"
    by (auto dest: antisym)
  then show ?thesis by (simp add: in_cls_def)
qed

lemma in_cls_dash: "in_cls c [(CHR ''-'', CHR ''-'')] = (c = CHR ''-'')"
  by (rule in_cls_single)

lemma alnum_not_dash: "alnum c \<Longrightarrow> c \<noteq> CHR ''-''"
  by (auto simp: alnum_def is_lower_def is_digit_def)

lemma lower_alnum: "is_lower c \<Longrightarrow> alnum c"
  by (simp add: alnum_def)

lemma lang_segment:
  "(t \<in> lang (Many1 (Cls [(CHR ''a'', CHR ''z''), (CHR ''0'', CHR ''9'')]))) = segment t"
proof -
  have "(t \<in> conc {[c] | c. alnum c} (star {[c] | c. alnum c})) = segment t"
  proof (cases t)
    case Nil
    then show ?thesis by (auto simp: conc_def segment_def)
  next
    case (Cons c u)
    then show ?thesis by (auto simp: conc_cons star_chars segment_def)
  qed
  then show ?thesis by (simp add: in_cls_alnum)
qed

lemma split_on_plain: "sep \<notin> set u \<Longrightarrow> split_on sep u = [u]"
  by (induction u) auto

lemma split_on_at_sep: "sep \<notin> set u \<Longrightarrow> split_on sep (u @ sep # v) = u # split_on sep v"
  by (induction u) auto

lemma segment_no_dash: "segment t \<Longrightarrow> CHR ''-'' \<notin> set t"
  by (auto simp: segment_def list_all_iff dest: alnum_not_dash)

lemma lang_dashed:
  "lang (Cat (Lit (CHR ''-'')) (Many1 (Cls [(CHR ''a'', CHR ''z''), (CHR ''0'', CHR ''9'')]))) = dashed"
proof -
  have "conc {[c] | c. c = CHR ''-''} {t. segment t} = dashed"
    by (auto simp: conc_def dashed_def)
  moreover have "lang (Many1 (Cls [(CHR ''a'', CHR ''z''), (CHR ''0'', CHR ''9'')])) = {t. segment t}"
    using lang_segment by blast
  ultimately show ?thesis
    by (simp add: in_cls_dash del: lang.simps(4)) (simp add: in_cls_dash)
qed

lemma star_dashed_split:
  assumes "w \<in> star dashed"
  shows "w = [] \<or> (\<exists>t. w = CHR ''-'' # t \<and> list_all segment (split_on (CHR ''-'') t))"
  using assms
proof induction
  case star_empty
  then show ?case by simp
next
  case (star_more u v)
  from star_more.hyps(1) obtain t where u: "u = CHR ''-'' # t" and t: "segment t"
    by (auto simp: dashed_def)
  from t have nd: "CHR ''-'' \<notin> set t" by (rule segment_no_dash)
  from star_more.IH show ?case
  proof
    assume "v = []"
    with u t nd show ?thesis by (simp add: split_on_plain)
  next
    assume "\<exists>t'. v = CHR ''-'' # t' \<and> list_all segment (split_on (CHR ''-'') t')"
    then obtain t' where "v = CHR ''-'' # t'" and "list_all segment (split_on (CHR ''-'') t')"
      by blast
    with u t nd show ?thesis by (simp add: split_on_at_sep)
  qed
qed

lemma split_first:
  obtains (plain) "sep \<notin> set t"
  | (cut) u v where "t = u @ sep # v" and "sep \<notin> set u"
proof (cases "sep \<in> set t")
  case False
  then show ?thesis by (rule plain)
next
  case True
  then obtain u v where "t = u @ sep # v" and "sep \<notin> set u"
    by (auto dest: split_list_first)
  then show ?thesis by (rule cut)
qed

lemma segments_star_dashed:
  "list_all segment (split_on (CHR ''-'') t) \<Longrightarrow> CHR ''-'' # t \<in> star dashed"
proof (induction t rule: length_induct)
  case (1 t)
  show ?case
  proof (cases rule: split_first [of "CHR ''-''" t])
    case plain
    with 1 have "segment t" by (simp add: split_on_plain)
    then have "CHR ''-'' # t \<in> dashed" by (auto simp: dashed_def)
    then have "(CHR ''-'' # t) @ [] \<in> star dashed" by (intro star_more star_empty)
    then show ?thesis by simp
  next
    case (cut u v)
    with "1.prems" have u: "segment u" and v: "list_all segment (split_on (CHR ''-'') v)"
      by (simp_all add: split_on_at_sep)
    from cut have "length v < length t" by simp
    with "1.IH" v have "CHR ''-'' # v \<in> star dashed" by blast
    moreover from u have "CHR ''-'' # u \<in> dashed" by (auto simp: dashed_def)
    ultimately have "(CHR ''-'' # u) @ (CHR ''-'' # v) \<in> star dashed" by (intro star_more)
    with cut show ?thesis by simp
  qed
qed

lemma lang_name_pattern:
  "(s \<in> lang PLUGIN_NAME_PATTERN) =
     (\<exists>c a rest. s = c # a @ rest \<and> is_lower c \<and> list_all alnum a \<and> rest \<in> star dashed)"
proof -
  have "lang PLUGIN_NAME_PATTERN =
      conc {[c] | c. is_lower c} (conc (star {[c] | c. alnum c}) (star dashed))"
    unfolding PLUGIN_NAME_PATTERN_def lang.simps(4) [of "Cls [(CHR ''a'', CHR ''z'')]"]
      lang.simps(4) [of "Star (Cls [(CHR ''a'', CHR ''z''), (CHR ''0'', CHR ''9'')])"]
      lang.simps(6) lang_dashed
    by (simp add: in_cls_lower in_cls_alnum)
  then have "(s \<in> lang PLUGIN_NAME_PATTERN) =
      (\<exists>u v. s = u @ v \<and> (\<exists>c. u = [c] \<and> is_lower c)
         \<and> (\<exists>a rest. v = a @ rest \<and> list_all alnum a \<and> rest \<in> star dashed))"
    by (auto simp: conc_def star_chars)
  also have "\<dots> = (\<exists>c a rest. s = c # a @ rest \<and> is_lower c \<and> list_all alnum a
      \<and> rest \<in> star dashed)"
  proof
    assume "\<exists>u v. s = u @ v \<and> (\<exists>c. u = [c] \<and> is_lower c)
         \<and> (\<exists>a rest. v = a @ rest \<and> list_all alnum a \<and> rest \<in> star dashed)"
    then obtain c a rest where "s = [c] @ a @ rest" "is_lower c" "list_all alnum a"
      "rest \<in> star dashed" by blast
    then show "\<exists>c a rest. s = c # a @ rest \<and> is_lower c \<and> list_all alnum a
      \<and> rest \<in> star dashed" by auto
  next
    assume "\<exists>c a rest. s = c # a @ rest \<and> is_lower c \<and> list_all alnum a
      \<and> rest \<in> star dashed"
    then obtain c a rest where "s = [c] @ (a @ rest)" "is_lower c" "list_all alnum a"
      "rest \<in> star dashed" by auto
    then show "\<exists>u v. s = u @ v \<and> (\<exists>c. u = [c] \<and> is_lower c)
         \<and> (\<exists>a rest. v = a @ rest \<and> list_all alnum a \<and> rest \<in> star dashed)"
      by blast
  qed
  finally show ?thesis .
qed

lemma name_pattern_is_kebab: "re_fullmatch PLUGIN_NAME_PATTERN s = kebab_case s"
proof
  assume "re_fullmatch PLUGIN_NAME_PATTERN s"
  then obtain c a rest where s: "s = c # a @ rest" and c: "is_lower c" and a: "list_all alnum a"
    and rest: "rest \<in> star dashed"
    by (auto simp: re_fullmatch_lang lang_name_pattern)
  from c a have seg: "segment (c # a)" by (simp add: segment_def lower_alnum)
  then have nd: "CHR ''-'' \<notin> set (c # a)" by (rule segment_no_dash)
  from star_dashed_split [OF rest]
  have "list_all segment (split_on (CHR ''-'') ((c # a) @ rest))"
  proof
    assume "rest = []"
    with seg split_on_plain [OF nd] show ?thesis by (simp del: split_on.simps)
  next
    assume "\<exists>t. rest = CHR ''-'' # t \<and> list_all segment (split_on (CHR ''-'') t)"
    then obtain t where "rest = CHR ''-'' # t" and "list_all segment (split_on (CHR ''-'') t)"
      by blast
    with seg split_on_at_sep [OF nd, of t] show ?thesis by (simp del: split_on.simps)
  qed
  with s c show "kebab_case s"
    by (simp add: kebab_case_def segment_def [abs_def] alnum_def [abs_def] del: split_on.simps)
next
  assume k: "kebab_case s"
  then obtain c cs where s: "s = c # cs" and c: "is_lower c"
    and segs: "list_all segment (split_on (CHR ''-'') (c # cs))"
    by (cases s)
      (simp_all add: kebab_case_def segment_def [abs_def] alnum_def [abs_def] del: split_on.simps)
  from c have cd: "c \<noteq> CHR ''-''" by (auto dest: lower_alnum alnum_not_dash)
  have "\<exists>a rest. cs = a @ rest \<and> list_all alnum a \<and> rest \<in> star dashed"
  proof (cases rule: split_first [of "CHR ''-''" cs])
    case plain
    with cd have "CHR ''-'' \<notin> set (c # cs)" by simp
    with segs have "segment (c # cs)" by (simp add: split_on_plain del: split_on.simps)
    then have "list_all alnum cs" by (simp add: segment_def)
    moreover have "[] \<in> star dashed" by (rule star_empty)
    ultimately show ?thesis by (intro exI [of _ cs] exI [of _ "[]"]) simp
  next
    case (cut u v)
    with cd have "CHR ''-'' \<notin> set (c # u)" by simp
    from split_on_at_sep [OF this, of v] segs cut
    have "segment (c # u)" and "list_all segment (split_on (CHR ''-'') v)"
      by (simp_all del: split_on.simps)
    then have "list_all alnum u" and "CHR ''-'' # v \<in> star dashed"
      by (simp_all add: segment_def segments_star_dashed)
    with cut show ?thesis by blast
  qed
  with s c show "re_fullmatch PLUGIN_NAME_PATTERN s"
    by (auto simp: re_fullmatch_lang lang_name_pattern)
qed

lemma name_accepted_iff:
  "re_match PLUGIN_NAME_PATTERN s = (kebab_case s \<or> (\<exists>t. s = t @ nl \<and> kebab_case t))"
proof -
  have "(s \<noteq> [] \<and> last s = CHR 0x0A \<and> kebab_case (butlast s)) = (\<exists>t. s = t @ nl \<and> kebab_case t)"
  proof
    assume "s \<noteq> [] \<and> last s = CHR 0x0A \<and> kebab_case (butlast s)"
    then have "s = butlast s @ nl" and "kebab_case (butlast s)"
      by (simp_all add: nl_def) (metis append_butlast_last_id)
    then show "\<exists>t. s = t @ nl \<and> kebab_case t" by blast
  next
    assume "\<exists>t. s = t @ nl \<and> kebab_case t"
    then show "s \<noteq> [] \<and> last s = CHR 0x0A \<and> kebab_case (butlast s)"
      by (auto simp: nl_def)
  qed
  then show ?thesis
    by (simp add: re_match_def name_pattern_is_kebab)
qed

lemma name_pattern_examples:
  "re_match PLUGIN_NAME_PATTERN ''my-plugin''"
  "re_match PLUGIN_NAME_PATTERN ''my-plugin2''"
  "\<not> re_match PLUGIN_NAME_PATTERN ''MyPlugin''"
  "\<not> re_match PLUGIN_NAME_PATTERN ''My-Plugin''"
  "\<not> re_match PLUGIN_NAME_PATTERN ''my_plugin''"
  "\<not> re_match PLUGIN_NAME_PATTERN ''-lead''"
  "re_match PLUGIN_NAME_PATTERN (''my-plugin'' @ nl)"
  by (simp_all add: re_match_def re_fullmatch_def PLUGIN_NAME_PATTERN_def in_cls_def nl_def)

lemma kebab_examples:
  "kebab_case ''my-plugin''"
  "kebab_case ''my-plugin2''"
  "\<not> kebab_case ''MyPlugin''"
  "\<not> kebab_case ''My-Plugin''"
  "\<not> kebab_case ''my_plugin''"
  "\<not> kebab_case ''-lead''"
  "\<not> kebab_case (''my-plugin'' @ nl)"
  by (simp_all add: kebab_case_def is_lower_def is_digit_def nl_def)

lemma name_issues_string:
  "name_issues (JString s) = (if re_match PLUGIN_NAME_PATTERN s then [] else [''name_format''])"
  by (simp add: name_issues_def validate_name_def add_error_def new_result_def)

text \<open>
  Claim C6. The check accepts a string exactly when it is of the pattern or is a string of
  the pattern followed by one newline. On the names given in the claim it behaves as
  stated:
  \<^verbatim>\<open>my-plugin\<close> and \<^verbatim>\<open>my-plugin2\<close> raise no issue; \<^verbatim>\<open>MyPlugin\<close>,
  \<^verbatim>\<open>My-Plugin\<close>, \<^verbatim>\<open>my_plugin\<close> and \<^verbatim>\<open>-lead\<close> raise \<^verbatim>\<open>name_format\<close>; a
  name that is no string raises \<^verbatim>\<open>name_type\<close>. But the check does not accept exactly
  the strings of the pattern: \<^verbatim>\<open>my-plugin\<close> followed by a newline is not of the
  pattern, and the check raises no issue on it.
\<close>

theorem name_check_accepts_trailing_newline:
  "(name_issues (JString s) = []) = (kebab_case s \<or> (\<exists>t. s = t @ nl \<and> kebab_case t))
   \<and> name_issues (JString ''my-plugin'') = []
   \<and> name_issues (JString ''my-plugin2'') = []
   \<and> name_issues (JString ''MyPlugin'') = [''name_format'']
   \<and> name_issues (JString ''My-Plugin'') = [''name_format'']
   \<and> name_issues (JString ''my_plugin'') = [''name_format'']
   \<and> name_issues (JString ''-lead'') = [''name_format'']
   \<and> name_issues (JInt 7) = [''name_type'']
   \<and> \<not> kebab_case (''my-plugin'' @ nl)
   \<and> name_issues (JString (''my-plugin'' @ nl)) = []"
proof -
  have t: "name_issues (JInt 7) = [''name_type'']"
    by (simp add: name_issues_def validate_name_def add_error_def new_result_def)
  have g: "(name_issues (JString s) = []) = (kebab_case s \<or> (\<exists>t. s = t @ nl \<and> kebab_case t))"
    by (simp add: name_issues_string name_accepted_iff)
  have e: "name_issues (JString ''my-plugin'') = []
   \<and> name_issues (JString ''my-plugin2'') = []
   \<and> name_issues (JString ''MyPlugin'') = [''name_format'']
   \<and> name_issues (JString ''My-Plugin'') = [''name_format'']
   \<and> name_issues (JString ''my_plugin'') = [''name_format'']
   \<and> name_issues (JString ''-lead'') = [''name_format'']
   \<and> name_issues (JInt 7) = [''name_type'']
   \<and> \<not> kebab_case (''my-plugin'' @ nl)
   \<and> name_issues (JString (''my-plugin'' @ nl)) = []"
    unfolding name_issues_string
    by (intro conjI) (simp_all only: name_pattern_examples kebab_examples t if_True if_False
        not_False_eq_True)
  from g e show ?thesis ..
qed

subsection \<open>The machine-readable report\<close>

lemma issue_to_dict_eq: "(issue_to_dict a = issue_to_dict b) = (exposed a = exposed b)"
  by (cases "line a"; cases "line b") (auto simp: issue_to_dict_def exposed_def)

lemma map_issue_to_dict_eq:
  "(map issue_to_dict xs = map issue_to_dict ys) = (map exposed xs = map exposed ys)"
proof (induction xs arbitrary: ys)
  case Nil
  then show ?case by auto
next
  case (Cons x xs)
  then show ?case by (cases ys) (auto simp: issue_to_dict_eq)
qed

lemma result_to_dict_eq:
  "(result_to_dict r = result_to_dict r') =
     (status r = status r' \<and> map exposed (errors r) = map exposed (errors r')
      \<and> map exposed (warnings r) = map exposed (warnings r'))"
  by (simp add: result_to_dict_def map_issue_to_dict_eq)

lemma map_of_results:
  assumes "distinct (map fst results)" and "(name, r) \<in> set results"
  shows "map_of (map (\<lambda>(name, result). (name, result_to_dict result)) results) name
     = Some (result_to_dict r)"
proof -
  have "map_of (map (\<lambda>(name, result). (name, result_to_dict result)) results) name
      = map_option result_to_dict (map_of results name)"
    by (induction results) auto
  with assms show ?thesis by simp
qed

lemma count_status_where: "count_status p results = count_where p results"
  by (simp add: count_status_def count_where_def filter_map comp_def case_prod_unfold)

text \<open>
  Claim C9, as amended. For all collections of results whose keys are distinct (as the
  keys of a dict are), the report gives under \<^verbatim>\<open>root_plugin\<close>, \<^verbatim>\<open>marketplace\<close>,
  \<^verbatim>\<open>plugins\<close> and \<^verbatim>\<open>skills\<close> the document of each subject; that document
  determines exactly the subject's status and the check, message, file and line of its
  error issues and of its warning issues, in order; and the summary gives the number of
  plugins and of those with status passed, warning and failed, and the number of skills
  and of those with status passed and of those with status warning or failed, counted
  together.
\<close>

theorem json_report_contents:
  assumes "distinct (map fst plugin_results)" and "distinct (map fst skill_results)"
  shows
    "report_at (print_json_results root_result marketplace_result plugin_results skill_results)
        [''root_plugin''] = Inr (case root_result of Some r \<Rightarrow> result_to_dict r | None \<Rightarrow> JNull)
     \<and> report_at (print_json_results root_result marketplace_result plugin_results skill_results)
        [''marketplace'']
        = Inr (case marketplace_result of Some r \<Rightarrow> result_to_dict r | None \<Rightarrow> JNull)
     \<and> (\<forall>(name, r) \<in> set plugin_results.
          report_at (print_json_results root_result marketplace_result plugin_results skill_results)
            [''plugins'', name] = Inr (result_to_dict r))
     \<and> (\<forall>(name, r) \<in> set skill_results.
          report_at (print_json_results root_result marketplace_result plugin_results skill_results)
            [''skills'', name] = Inr (result_to_dict r))
     \<and> (result_to_dict r1 = result_to_dict r2) =
          (status r1 = status r2 \<and> map exposed (errors r1) = map exposed (errors r2)
           \<and> map exposed (warnings r1) = map exposed (warnings r2))
     \<and> report_at (print_json_results root_result marketplace_result plugin_results skill_results)
          [''summary''] =
        Inr (JObject
          [(''total_plugins'', JInt (int (length plugin_results))),
           (''plugins_passed'', count_where (\<lambda>s. s = ''passed'') plugin_results),
           (''plugins_warnings'', count_where (\<lambda>s. s = ''warning'') plugin_results),
           (''plugins_failed'', count_where (\<lambda>s. s = ''failed'') plugin_results),
           (''total_skills'', JInt (int (length skill_results))),
           (''skills_passed'', count_where (\<lambda>s. s = ''passed'') skill_results),
           (''skills_failed'',
              count_where (\<lambda>s. s = ''warning'' \<or> s = ''failed'') skill_results)])"
proof -
  have p: "report_at (print_json_results root_result marketplace_result plugin_results skill_results)
            [''plugins'', name] = Inr (result_to_dict r)"
    if "(name, r) \<in> set plugin_results" for name r
    using map_of_results [OF assms(1) that]
    by (simp add: print_json_results_def)
  have s: "report_at (print_json_results root_result marketplace_result plugin_results skill_results)
            [''skills'', name] = Inr (result_to_dict r)"
    if "(name, r) \<in> set skill_results" for name r
    using map_of_results [OF assms(2) that]
    by (simp add: print_json_results_def)
  have rest: "report_at (print_json_results root_result marketplace_result plugin_results skill_results)
        [''root_plugin''] = Inr (case root_result of Some r \<Rightarrow> result_to_dict r | None \<Rightarrow> JNull)
     \<and> report_at (print_json_results root_result marketplace_result plugin_results skill_results)
        [''marketplace'']
        = Inr (case marketplace_result of Some r \<Rightarrow> result_to_dict r | None \<Rightarrow> JNull)
     \<and> report_at (print_json_results root_result marketplace_result plugin_results skill_results)
          [''summary''] =
        Inr (JObject
          [(''total_plugins'', JInt (int (length plugin_results))),
           (''plugins_passed'', count_where (\<lambda>s. s = ''passed'') plugin_results),
           (''plugins_warnings'', count_where (\<lambda>s. s = ''warning'') plugin_results),
           (''plugins_failed'', count_where (\<lambda>s. s = ''failed'') plugin_results),
           (''total_skills'', JInt (int (length skill_results))),
           (''skills_passed'', count_where (\<lambda>s. s = ''passed'') skill_results),
           (''skills_failed'',
              count_where (\<lambda>s. s = ''warning'' \<or> s = ''failed'') skill_results)])"
    by (simp add: print_json_results_def count_status_where)
  from p s rest result_to_dict_eq [of r1 r2] show ?thesis
    by (auto simp del: report_at.simps)
qed

theorem json_report_contents_witness:
  "distinct (map fst [(''demo'', bob_result)])
   \<and> distinct (map fst [(''demo/review'', new_result)])
   \<and> report_at (print_json_results None None [(''demo'', bob_result)]
         [(''demo/review'', new_result)]) [''plugins'', ''demo''] = Inr (result_to_dict bob_result)
   \<and> report_at (print_json_results None None [(''demo'', bob_result)]
         [(''demo/review'', new_result)]) [''skills'', ''demo/review'']
       = Inr (result_to_dict new_result)
   \<and> report_at (print_json_results None None [(''demo'', bob_result)]
         [(''demo/review'', new_result)]) [''summary'']
       = Inr (JObject
           [(''total_plugins'', JInt 1), (''plugins_passed'', JInt 0),
            (''plugins_warnings'', JInt 0), (''plugins_failed'', JInt 1),
            (''total_skills'', JInt 1), (''skills_passed'', JInt 1),
            (''skills_failed'', JInt 0)])"
proof -
  have h1: "distinct (map fst [(''demo'', bob_result)])" by simp
  have h2: "distinct (map fst [(''demo/review'', new_result)])" by simp
  have b: "status bob_result = ''failed''"
    by (simp add: bob_result_def validate_author_def add_error_def add_info_def new_result_def)
  have n: "status new_result = ''passed''" by (simp add: new_result_def)
  from json_report_contents [OF h1 h2, of None None]
  show ?thesis
    by (simp add: count_where_def b n del: report_at.simps)
qed

text \<open>
  Claim C9 as stated fails. Two results of the same plugin that differ in an info issue
  give the same report, so the info issues are not exposed; and a skill with status
  warning is counted under \<^verbatim>\<open>skills_failed\<close>, the summary holding no count of the
  skills with status warning.
\<close>

theorem json_report_counterexample:
  "info bob_result \<noteq> info (bob_result\<lparr>info := []\<rparr>)
   \<and> print_json_results None None [(''demo'', bob_result)] []
       = print_json_results None None [(''demo'', bob_result\<lparr>info := []\<rparr>)] []
   \<and> status warned_result = ''warning''
   \<and> report_at (print_json_results None None [] [(''demo/review'', warned_result)]) [''summary'']
       = Inr (JObject
           [(''total_plugins'', JInt 0), (''plugins_passed'', JInt 0),
            (''plugins_warnings'', JInt 0), (''plugins_failed'', JInt 0),
            (''total_skills'', JInt 1), (''skills_passed'', JInt 0),
            (''skills_failed'', JInt 1)])"
  by (simp add: bob_result_def warned_result_def validate_author_def print_json_results_def
      result_to_dict_def count_status_def add_error_def add_info_def add_warning_def
      new_result_def)

end
